theory Spec2Isabelle
  imports Main "HOL-Library.Sublist"
begin

section \<open>Steering document generator: strings and dictionaries\<close>

text \<open>
  The development embeds \<^verbatim>\<open>steering_generator/generator.py\<close>. Python strings are
  modelled as \<^typ>\<open>string\<close>, a character outside ASCII standing as its UTF-8 bytes.

  \<^verbatim>\<open>str.upper\<close> is Python's Unicode case mapping, whose tables are no part of the
  repository: every function that calls it, directly or through another, takes the
  mapping as its first argument \<open>upper\<close>, and what is proved of it holds for every
  mapping. \<open>str_upper\<close> is the mapping on ASCII text, for the example inputs.

  \<^verbatim>\<open>str.lower\<close> is only used to look for the words \<open>supabase\<close>, \<open>prisma\<close>,
  \<open>drizzle\<close>, \<open>tailwind\<close> and \<open>deploy\<close> in the result. \<open>str_lower\<close> lowers the 26 ASCII
  letters; the two characters outside ASCII whose lower case has an ASCII letter (the
  Kelvin sign, and the dotted capital I, whose \<open>i\<close> a combining dot follows) complete
  none of these words, so the searches answer as they do in Python.
\<close>

definition lower_char :: "char \<Rightarrow> char" where
  "lower_char c =
     (case map_of (zip ''ABCDEFGHIJKLMNOPQRSTUVWXYZ'' ''abcdefghijklmnopqrstuvwxyz'') c of
        None \<Rightarrow> c | Some l \<Rightarrow> l)"

definition upper_char :: "char \<Rightarrow> char" where
  "upper_char c =
     (case map_of (zip ''abcdefghijklmnopqrstuvwxyz'' ''ABCDEFGHIJKLMNOPQRSTUVWXYZ'') c of
        None \<Rightarrow> c | Some u \<Rightarrow> u)"

definition str_lower :: "string \<Rightarrow> string" where
  "str_lower s = map lower_char s"

definition str_upper :: "string \<Rightarrow> string" where
  "str_upper s = map upper_char s"

text \<open>Python's \<^verbatim>\<open>sub in s\<close> on strings: \<open>sub\<close> occurs in \<open>s\<close> as a contiguous run.\<close>

fun str_in :: "string \<Rightarrow> string \<Rightarrow> bool" where
  "str_in sub [] = (sub = [])"
| "str_in sub (c # cs) = (prefix sub (c # cs) \<or> str_in sub cs)"

text \<open>\<^verbatim>\<open>sep.join(xs)\<close>.\<close>

fun join :: "string \<Rightarrow> string list \<Rightarrow> string" where
  "join sep [] = []"
| "join sep [x] = x"
| "join sep (x # y # ys) = x @ sep @ join sep (y # ys)"

text \<open>
  \<^verbatim>\<open>s[:n]\<close>, the first \<open>n\<close> characters. In UTF-8 a character is one byte that is not a
  continuation byte (the bytes \<open>10xxxxxx\<close>), followed by its continuation bytes.
\<close>

definition is_continuation :: "char \<Rightarrow> bool" where
  "is_continuation c = (case c of Char b0 b1 b2 b3 b4 b5 b6 b7 \<Rightarrow> b7 \<and> \<not> b6)"

fun take_chars :: "nat \<Rightarrow> string \<Rightarrow> string" where
  "take_chars n [] = []"
| "take_chars n (c # cs) =
     (if is_continuation c then c # take_chars n cs
      else (case n of 0 \<Rightarrow> [] | Suc m \<Rightarrow> c # take_chars m cs))"

text \<open>\<^verbatim>\<open>s.split(c)\<close> for a one-character separator; the result is never empty.\<close>

fun split_on :: "char \<Rightarrow> string \<Rightarrow> string list" where
  "split_on c [] = [[]]"
| "split_on c (x # xs) =
     (if x = c then [] # split_on c xs
      else (case split_on c xs of [] \<Rightarrow> [[x]] | w # ws \<Rightarrow> (x # w) # ws))"

text \<open>
  A Python dict is an association list in insertion order; lookup takes the first entry
  of a key, \<^verbatim>\<open>k in d\<close> asks for one, and a dict is falsy when it has no entry.
\<close>

type_synonym ('k, 'v) dict = "('k \<times> 'v) list"

definition dict_get :: "('k, 'v) dict \<Rightarrow> 'k \<Rightarrow> 'v option" where
  "dict_get d k = map_of d k"

definition dict_has :: "('k, 'v) dict \<Rightarrow> 'k \<Rightarrow> bool" where
  "dict_has d k = (map_of d k \<noteq> None)"

text \<open>\<^verbatim>\<open>d[k] = v\<close>: an existing key keeps its position, a new key goes to the end.\<close>

fun dict_set :: "('k, 'v) dict \<Rightarrow> 'k \<Rightarrow> 'v \<Rightarrow> ('k, 'v) dict" where
  "dict_set [] k v = [(k, v)]"
| "dict_set ((k', v') # d) k v = (if k' = k then (k, v) # d else (k', v') # dict_set d k v)"

section \<open>Environment variable descriptions\<close>

definition descriptions :: "(string, string) dict" where
  "descriptions =
    [(''DATABASE_URL'', ''Database connection string''),
     (''NEXT_PUBLIC_SUPABASE_URL'', ''Supabase project URL''),
     (''NEXT_PUBLIC_SUPABASE_ANON_KEY'', ''Supabase anonymous key (public)''),
     (''SUPABASE_SERVICE_ROLE_KEY'', ''Supabase service role key (server-only)''),
     (''NEXTAUTH_SECRET'', ''NextAuth.js secret''),
     (''NEXTAUTH_URL'', ''NextAuth.js URL''),
     (''OPENAI_API_KEY'', ''OpenAI API key''),
     (''STRIPE_SECRET_KEY'', ''Stripe secret key''),
     (''STRIPE_PUBLISHABLE_KEY'', ''Stripe publishable key'')]"

text \<open>
  \<^verbatim>\<open>_get_env_var_description\<close>: the exact table, then the chain of substring tests on
  \<^verbatim>\<open>var.upper()\<close>.
\<close>

definition get_env_var_description :: "(string \<Rightarrow> string) \<Rightarrow> string \<Rightarrow> string" where
  "get_env_var_description upper var =
     (case dict_get descriptions var of
        Some d \<Rightarrow> d
      | None \<Rightarrow>
         (let var_upper = upper var in
          if str_in ''SUPABASE'' var_upper \<and> str_in ''URL'' var_upper then ''Supabase project URL''
          else if str_in ''SUPABASE'' var_upper \<and> str_in ''ANON'' var_upper then ''Supabase anonymous key''
          else if str_in ''SUPABASE'' var_upper \<and> str_in ''SERVICE'' var_upper then ''Supabase service role key''
          else if str_in ''DATABASE'' var_upper \<or> str_in ''DB_'' var_upper then ''Database connection''
          else if str_in ''API_KEY'' var_upper \<or> str_in ''APIKEY'' var_upper then ''API key''
          else if str_in ''SECRET'' var_upper then ''Secret key''
          else if str_in ''URL'' var_upper then ''Service URL''
          else ''Required''))"

text \<open>
  The resolution order as the specification words it: the exact table first, then the
  first rule that matches in a fixed priority list of case-insensitive substring rules,
  then the default. Each rule is a test on the upper-cased name and a description; the
  case mapping is the parameter \<open>upper\<close> again.
\<close>

definition substring_rules :: "((string \<Rightarrow> bool) \<times> string) list" where
  "substring_rules =
    [(\<lambda>u. str_in ''SUPABASE'' u \<and> str_in ''URL'' u, ''Supabase project URL''),
     (\<lambda>u. str_in ''SUPABASE'' u \<and> str_in ''ANON'' u, ''Supabase anonymous key''),
     (\<lambda>u. str_in ''SUPABASE'' u \<and> str_in ''SERVICE'' u, ''Supabase service role key''),
     (\<lambda>u. str_in ''DATABASE'' u \<or> str_in ''DB_'' u, ''Database connection''),
     (\<lambda>u. str_in ''API_KEY'' u \<or> str_in ''APIKEY'' u, ''API key''),
     (\<lambda>u. str_in ''SECRET'' u, ''Secret key''),
     (\<lambda>u. str_in ''URL'' u, ''Service URL'')]"

definition describe_by_priority :: "(string \<Rightarrow> string) \<Rightarrow> string \<Rightarrow> string" where
  "describe_by_priority upper var =
     (case map_of descriptions var of
        Some d \<Rightarrow> d
      | None \<Rightarrow>
         (case find (\<lambda>rule. fst rule (upper var)) substring_rules of
            Some rule \<Rightarrow> snd rule
          | None \<Rightarrow> ''Required''))"

section \<open>The analysis record\<close>

text \<open>
  The derivers take a \<^verbatim>\<open>dict[str, Any]\<close>. Every key the code reads is a field of the
  record below, and a field is \<open>None\<close> when the key is absent: \<^verbatim>\<open>d.get(k, default)\<close>
  then gives the default and \<^verbatim>\<open>d[k]\<close> raises \<^verbatim>\<open>KeyError\<close>. Values have the shape the
  code expects of them (a name is a string, a category is a list of descriptors).
  \<open>categorizedDeps\<close> is the second key that \<^verbatim>\<open>generate_tech_md\<close> falls back to; the keys
  \<^verbatim>\<open>components\<close> and, in the technology document, \<^verbatim>\<open>architecturePatterns\<close> are read
  but never used and have no influence on the result.
\<close>

datatype py_error = KeyError string

record dep =
  dep_name :: "string option"
  dep_purpose :: "string option"

record field_desc =
  field_name :: "string option"
  field_type :: "string option"
  field_optional :: "bool option"

record entity =
  entity_name :: "string option"
  entity_description :: "string option"
  entity_fields :: "field_desc list option"

record status_enum =
  enum_name :: "string option"
  enum_values :: "string list option"

record readme_info =
  readme_title :: "string option"
  readme_description :: "string option"
  readme_features :: "string list option"

record analysis =
  framework :: "string option"
  categorizedDependencies :: "(string, dep list) dict option"
  categorizedDeps :: "(string, dep list) dict option"
  architecturePatterns :: "(string, string) dict option"
  scripts :: "(string, string) dict option"
  envVars :: "string list option"
  readme :: "readme_info option"
  entities :: "entity list option"
  statusEnums :: "status_enum list option"

text \<open>Sequencing of computations that may raise: the first error ends the run.\<close>

definition bind_err :: "py_error + 'a \<Rightarrow> ('a \<Rightarrow> py_error + 'b) \<Rightarrow> py_error + 'b" where
  "bind_err m f = (case m of Inl e \<Rightarrow> Inl e | Inr x \<Rightarrow> f x)"

text \<open>\<^verbatim>\<open>d.get(k, default)\<close> on an optional field.\<close>

definition get_or :: "'a option \<Rightarrow> 'a \<Rightarrow> 'a" where
  "get_or v dflt = (case v of None \<Rightarrow> dflt | Some x \<Rightarrow> x)"

text \<open>\<^verbatim>\<open>dep["name"]\<close>.\<close>

definition name_of :: "dep \<Rightarrow> py_error + string" where
  "name_of d = (case dep_name d of None \<Rightarrow> Inl (KeyError ''name'') | Some n \<Rightarrow> Inr n)"

text \<open>
  A loop \<^verbatim>\<open>for dep in deps\<close> whose body first reads \<^verbatim>\<open>dep["name"]\<close> and then appends
  the lines \<open>f name\<close>.
\<close>

fun for_names :: "(string \<Rightarrow> string list) \<Rightarrow> dep list \<Rightarrow> py_error + string list" where
  "for_names f [] = Inr []"
| "for_names f (d # ds) =
     bind_err (name_of d) (\<lambda>n. bind_err (for_names f ds) (\<lambda>rest. Inr (f n @ rest)))"

text \<open>
  \<^verbatim>\<open>categorized.get(k)\<close> as the list it is iterated over: an absent category and an
  empty one are both falsy.
\<close>

definition cat_list :: "(string, dep list) dict \<Rightarrow> string \<Rightarrow> dep list" where
  "cat_list categorized k = get_or (dict_get categorized k) []"

text \<open>\<^verbatim>\<open>if categorized.get(k): for dep in categorized[k]: ...\<close>\<close>

definition scan :: "(string, dep list) dict \<Rightarrow> string \<Rightarrow> (string \<Rightarrow> string list) \<Rightarrow> py_error + string list" where
  "scan categorized k f =
     (if cat_list categorized k \<noteq> [] then for_names f (cat_list categorized k) else Inr [])"

section \<open>The registries\<close>

record ide_config =
  cfg_path :: string
  cfg_filename :: "string option"
  cfg_multiple_files :: bool
  cfg_description :: string
  cfg_files :: "string list option"

definition IDE_CONFIGS :: "(string, ide_config) dict" where
  "IDE_CONFIGS =
    [(''kiro'', \<lparr>cfg_path = ''.kiro/steering/'', cfg_filename = None, cfg_multiple_files = True,
        cfg_description = ''Kiro IDE - Multiple .md files in .kiro/steering/'',
        cfg_files = Some [''product.md'', ''tech.md'', ''structure.md'']\<rparr>),
     (''cursor'', \<lparr>cfg_path = ''.cursor/rules/'', cfg_filename = Some ''project.mdc'',
        cfg_multiple_files = False, cfg_description = ''Cursor IDE - .cursor/rules/*.mdc'',
        cfg_files = None\<rparr>),
     (''copilot'', \<lparr>cfg_path = ''.github/'', cfg_filename = Some ''copilot-instructions.md'',
        cfg_multiple_files = False,
        cfg_description = ''GitHub Copilot - .github/copilot-instructions.md'', cfg_files = None\<rparr>),
     (''windsurf'', \<lparr>cfg_path = [], cfg_filename = Some ''.windsurfrules'',
        cfg_multiple_files = False,
        cfg_description = ''Windsurf/Codeium - .windsurfrules in root'', cfg_files = None\<rparr>),
     (''cline'', \<lparr>cfg_path = [], cfg_filename = Some ''.clinerules'', cfg_multiple_files = False,
        cfg_description = ''Cline - .clinerules in root'', cfg_files = None\<rparr>),
     (''aider'', \<lparr>cfg_path = [], cfg_filename = Some ''CONVENTIONS.md'', cfg_multiple_files = False,
        cfg_description = ''Aider - CONVENTIONS.md'', cfg_files = None\<rparr>),
     (''markdown'', \<lparr>cfg_path = [], cfg_filename = Some ''STEERING.md'', cfg_multiple_files = False,
        cfg_description = ''Generic markdown - Single STEERING.md file'', cfg_files = None\<rparr>)]"

definition FRAMEWORK_NAMES :: "(string, string) dict" where
  "FRAMEWORK_NAMES =
    [(''nextjs'', ''Next.js 15 (App Router)''),
     (''nextjs-pages'', ''Next.js 15 (Pages Router)''),
     (''laravel'', ''Laravel 12''),
     (''react'', ''React 19 (Vite)''),
     (''vue'', ''Vue.js 3 (Vite)''),
     (''nuxt'', ''Nuxt 3'')]"

text \<open>\<^verbatim>\<open>FRAMEWORK_NAMES.get(framework, framework)\<close>\<close>

definition framework_display :: "string \<Rightarrow> string" where
  "framework_display fw = get_or (dict_get FRAMEWORK_NAMES fw) fw"

section \<open>The technology document\<close>

text \<open>
  \<^verbatim>\<open>generate_tech_md\<close> appends to one list of lines, block after block. Each block of
  the source is one definition here and \<open>generate_tech_md_lines\<close> puts them together in
  the source's order; the document is the list joined by newlines.
\<close>

text \<open>
  \<^verbatim>\<open>deep_analysis.get("categorizedDependencies", {}) or deep_analysis.get("categorizedDeps", {})\<close>
\<close>

definition categorized_of :: "analysis \<Rightarrow> (string, dep list) dict" where
  "categorized_of r =
     (if get_or (categorizedDependencies r) [] \<noteq> [] then get_or (categorizedDependencies r) []
      else get_or (categorizedDeps r) [])"

definition tech_header :: "string list" where
  "tech_header =
    [''# Technology Stack\<newline>'',
     ''This document defines the technology choices for this project. '',
     ''Use these technologies when generating code and suggestions.\<newline>'']"

definition framework_lines :: "string \<Rightarrow> string list" where
  "framework_lines fw =
    [''## Framework & Runtime\<newline>'',
     ''- **Framework**: '' @ framework_display fw]
    @ (if fw \<in> set [''nextjs'', ''nextjs-pages'', ''react''] then
         [''- **UI Library**: React 19'', ''- **Language**: TypeScript 5'',
          ''- **Runtime**: Node.js 20+'']
       else if fw \<in> set [''vue'', ''nuxt''] then
         [''- **UI Library**: Vue 3 (Composition API)'', ''- **Language**: TypeScript 5'',
          ''- **Runtime**: Node.js 20+'']
       else if fw = ''laravel'' then
         [''- **Language**: PHP 8.2+'', ''- **Runtime**: PHP-FPM / Laravel Octane'']
       else [])
    @ [[]]"

definition database_dep_lines :: "dep \<Rightarrow> string list" where
  "database_dep_lines d =
     (let purpose = get_or (dep_purpose d) [];
          name = get_or (dep_name d) []
      in if str_in ''supabase'' (str_lower name) then
           [''- **Database**: Supabase (PostgreSQL)'', ''- **Auth**: Supabase Auth'',
            ''- **Storage**: Supabase Storage'']
         else if str_in ''prisma'' (str_lower name) then [''- **ORM**: Prisma'']
         else if str_in ''drizzle'' (str_lower name) then [''- **ORM**: Drizzle ORM'']
         else if purpose \<noteq> [] then [''- '' @ purpose]
         else [])"

definition database_lines :: "(string, dep list) dict \<Rightarrow> string list" where
  "database_lines categorized =
     (if cat_list categorized ''Database'' \<noteq> [] then
        [''## Database & Backend\<newline>'']
        @ concat (map database_dep_lines (cat_list categorized ''Database''))
        @ [[]]
      else [])"

text \<open>
  \<^verbatim>\<open>any("tailwind" in d["name"].lower() for d in deps)\<close> stops at the first hit, so a
  later descriptor without a name is not read by it.
\<close>

fun any_tailwind :: "dep list \<Rightarrow> py_error + bool" where
  "any_tailwind [] = Inr False"
| "any_tailwind (d # ds) =
     bind_err (name_of d)
       (\<lambda>n. if str_in ''tailwind'' (str_lower n) then Inr True else any_tailwind ds)"

text \<open>\<^verbatim>\<open>sum(1 for d in deps if "@radix-ui" in d["name"])\<close> reads every name.\<close>

fun radix_count :: "dep list \<Rightarrow> py_error + nat" where
  "radix_count [] = Inr 0"
| "radix_count (d # ds) =
     bind_err (name_of d)
       (\<lambda>n. bind_err (radix_count ds)
          (\<lambda>k. Inr ((if str_in ''@radix-ui'' n then 1 else 0) + k)))"

definition icon_line :: "string \<Rightarrow> string list" where
  "icon_line n =
     (if n = ''lucide-react'' then [''- **Icons**: Lucide React'']
      else if n = ''@heroicons/react'' then [''- **Icons**: Heroicons'']
      else [])"

definition font_line :: "string \<Rightarrow> string list" where
  "font_line n = (if n = ''geist'' then [''- **Font**: Geist font family''] else [])"

text \<open>
  The UI block: its lines, given the two values computed first and the lines of the two
  loops, and the block itself. The second result of the block is the local \<^verbatim>\<open>has_tailwind\<close>, which is bound only
  when the block runs: \<open>None\<close> is the unbound local that the constraints block asks for
  with \<^verbatim>\<open>'has_tailwind' in dir()\<close>.
\<close>

definition ui_block :: "bool \<Rightarrow> nat \<Rightarrow> string list \<Rightarrow> string list \<Rightarrow> string list" where
  "ui_block has_tailwind count icons fonts =
     [''## UI & Styling\<newline>'']
     @ (if has_tailwind then [''- **CSS Framework**: Tailwind CSS (utility-first)''] else [])
     @ (if count > 5 \<and> has_tailwind then
          [''- **Component Library**: shadcn/ui (built on Radix UI)'']
        else if count > 0 then [''- **UI Primitives**: Radix UI'']
        else [])
     @ icons @ fonts @ [[]]"

definition ui_lines :: "(string, dep list) dict \<Rightarrow> py_error + (string list \<times> bool option)" where
  "ui_lines categorized =
     (if cat_list categorized ''UI & Styling'' \<noteq> [] then
        bind_err (any_tailwind (cat_list categorized ''UI & Styling'')) (\<lambda>has_tailwind.
        bind_err (radix_count (cat_list categorized ''UI & Styling'')) (\<lambda>count.
        bind_err (for_names icon_line (cat_list categorized ''UI & Styling'')) (\<lambda>icons.
        bind_err (scan categorized ''Other'' font_line) (\<lambda>fonts.
        Inr (ui_block has_tailwind count icons fonts, Some has_tailwind)))))
      else Inr ([], None))"

definition forms_line :: "string \<Rightarrow> string list" where
  "forms_line n =
     (let name = last (split_on CHR ''/'' n)
      in if name = ''zod'' then [''**Validation**: Zod (schema validation)'']
         else if str_in ''react-hook-form'' n then [''**Forms**: React Hook Form'']
         else [])"

definition state_line :: "string \<Rightarrow> string list" where
  "state_line name =
     (if name = ''zustand'' then [''**State Management**: Zustand'']
      else if name = ''jotai'' then [''**State Management**: Jotai (atomic)'']
      else if str_in ''@reduxjs/toolkit'' name then [''**State Management**: Redux Toolkit'']
      else [])"

definition data_fetching_line :: "string \<Rightarrow> string list" where
  "data_fetching_line name =
     (if str_in ''@tanstack/react-query'' name then [''**Data Fetching**: TanStack Query'']
      else if name = ''swr'' then [''**Data Fetching**: SWR'']
      else [])"

definition utilities_line :: "string \<Rightarrow> string list" where
  "utilities_line name =
     (if name = ''date-fns'' then [''**Date Utilities**: date-fns'']
      else if name = ''dayjs'' then [''**Date Utilities**: Day.js'']
      else [])"

definition charts_line :: "string \<Rightarrow> string list" where
  "charts_line name = [''**Charts**: '' @ name]"

definition notifications_line :: "string \<Rightarrow> string list" where
  "notifications_line name =
     (if name = ''sonner'' then [''**Notifications**: Sonner (toast)'']
      else [''**Notifications**: '' @ name])"

definition theme_line :: "string \<Rightarrow> string list" where
  "theme_line name = (if name = ''next-themes'' then [''**Theming**: next-themes''] else [])"

definition key_libs :: "(string, dep list) dict \<Rightarrow> py_error + string list" where
  "key_libs categorized =
     bind_err (scan categorized ''Forms'' forms_line) (\<lambda>forms.
     bind_err (scan categorized ''State'' state_line) (\<lambda>state.
     bind_err (scan categorized ''Data Fetching'' data_fetching_line) (\<lambda>fetching.
     bind_err (scan categorized ''Utilities'' utilities_line) (\<lambda>utilities.
     bind_err (scan categorized ''Charts'' charts_line) (\<lambda>charts.
     bind_err (scan categorized ''Notifications'' notifications_line) (\<lambda>notifications.
     bind_err (scan categorized ''Theme'' theme_line) (\<lambda>theme.
     Inr (forms @ state @ fetching @ utilities @ charts @ notifications @ theme))))))))"

definition key_libraries_lines :: "string list \<Rightarrow> string list" where
  "key_libraries_lines libs =
     (if libs \<noteq> [] then
        [''## Key Libraries\<newline>''] @ map (\<lambda>lib. ''- '' @ lib) libs @ [[]]
      else [])"

definition commands_lines :: "(string, string) dict \<Rightarrow> string list" where
  "commands_lines scr =
     (if scr \<noteq> [] then
        [''## Development Commands\<newline>'', ''```bash'']
        @ (if dict_has scr ''dev'' then [''npm run dev       # Start development server''] else [])
        @ (if dict_has scr ''build'' then [''npm run build     # Build for production''] else [])
        @ (if dict_has scr ''start'' then [''npm run start     # Start production server''] else [])
        @ (if dict_has scr ''lint'' then [''npm run lint      # Run linter''] else [])
        @ (if dict_has scr ''test'' then [''npm run test      # Run tests''] else [])
        @ [''```\<newline>'']
      else [])"

definition env_lines :: "(string \<Rightarrow> string) \<Rightarrow> string list \<Rightarrow> string list" where
  "env_lines upper env_vars =
     (if env_vars \<noteq> [] then
        [''## Environment Variables\<newline>'',
         ''Required environment variables (`.env.local`):\<newline>'',
         ''| Variable | Description |'',
         ''|----------|-------------|'']
        @ map (\<lambda>var. ''| `'' @ var @ ''` | '' @ get_env_var_description upper var @ '' |'')
            env_vars
        @ [[]]
      else [])"

text \<open>
  \<^verbatim>\<open>has_tailwind if 'has_tailwind' in dir() else False\<close>: the flag of the UI block when
  that block ran, \<open>False\<close> otherwise.
\<close>

definition constraints_lines :: "string \<Rightarrow> bool option \<Rightarrow> string list" where
  "constraints_lines fw has_tailwind =
    [''## Technical Constraints\<newline>'',
     ''When generating code, follow these constraints:\<newline>'']
    @ (if fw \<in> set [''nextjs'', ''nextjs-pages''] then
         [''- Use Server Components by default, Client Components only when needed'',
          ''- Prefer Server Actions for mutations'',
          ''- Use `next/image` for images, `next/link` for navigation'']
       else [])
    @ (if get_or has_tailwind False then [''- Use Tailwind CSS classes, avoid inline styles'']
       else [])
    @ [''- Follow TypeScript strict mode'', []]"

definition generate_tech_md_lines :: "(string \<Rightarrow> string) \<Rightarrow> analysis \<Rightarrow> py_error + string list" where
  "generate_tech_md_lines upper r =
     (let fw = get_or (framework r) ''unknown'';
          categorized = categorized_of r;
          scr = get_or (scripts r) [];
          env_vars = get_or (envVars r) []
      in bind_err (ui_lines categorized) (\<lambda>ui.
         bind_err (key_libs categorized) (\<lambda>libs.
         Inr (tech_header @ framework_lines fw @ database_lines categorized @ fst ui
              @ key_libraries_lines libs @ commands_lines scr @ env_lines upper env_vars
              @ constraints_lines fw (snd ui)))))"

definition generate_tech_md :: "(string \<Rightarrow> string) \<Rightarrow> analysis \<Rightarrow> py_error + string" where
  "generate_tech_md upper r =
     bind_err (generate_tech_md_lines upper r) (\<lambda>lines. Inr (join ''\<newline>'' lines))"

section \<open>The structure document\<close>

text \<open>
  The directory trees of the \<^verbatim>\<open>structures\<close> table are drawn with four box-drawing
  characters, given here by their UTF-8 bytes.
\<close>

definition box_tee :: string where
  "box_tee = [CHR 0xE2, CHR 0x94, CHR 0x9C]"

definition box_dash :: string where
  "box_dash = [CHR 0xE2, CHR 0x94, CHR 0x80]"

definition box_bar :: string where
  "box_bar = [CHR 0xE2, CHR 0x94, CHR 0x82]"

definition box_corner :: string where
  "box_corner = [CHR 0xE2, CHR 0x94, CHR 0x94]"

definition structure_nextjs :: string where
  "structure_nextjs = concat
    [''```\<newline>'',
     box_tee @ box_dash @ box_dash @ '' app/                    # Next.js App Router\<newline>'',
     box_bar @ ''   '' @ box_tee @ box_dash @ box_dash @ '' api/               # API routes (Route Handlers)\<newline>'',
     box_bar @ ''   '' @ box_tee @ box_dash @ box_dash @ '' layout.tsx         # Root layout with providers\<newline>'',
     box_bar @ ''   '' @ box_tee @ box_dash @ box_dash @ '' page.tsx           # Main entry point\<newline>'',
     box_bar @ ''   '' @ box_corner @ box_dash @ box_dash @ '' globals.css        # Global styles & Tailwind\<newline>'',
     box_bar @ ''\<newline>'',
     box_tee @ box_dash @ box_dash @ '' components/            # React components\<newline>'',
     box_bar @ ''   '' @ box_tee @ box_dash @ box_dash @ '' ui/               # shadcn/ui primitives\<newline>'',
     box_bar @ ''   '' @ box_corner @ box_dash @ box_dash @ '' *.tsx             # Feature components\<newline>'',
     box_bar @ ''\<newline>'',
     box_tee @ box_dash @ box_dash @ '' hooks/                 # Custom React hooks\<newline>'',
     box_bar @ ''\<newline>'',
     box_tee @ box_dash @ box_dash @ '' lib/                   # Utilities and core logic\<newline>'',
     box_bar @ ''   '' @ box_tee @ box_dash @ box_dash @ '' types.ts          # TypeScript interfaces\<newline>'',
     box_bar @ ''   '' @ box_corner @ box_dash @ box_dash @ '' utils.ts          # Utility functions\<newline>'',
     box_bar @ ''\<newline>'',
     box_corner @ box_dash @ box_dash @ '' public/               # Static assets\<newline>'',
     ''```'']"

definition structure_laravel :: string where
  "structure_laravel = concat
    [''```\<newline>'',
     box_tee @ box_dash @ box_dash @ '' app/\<newline>'',
     box_bar @ ''   '' @ box_tee @ box_dash @ box_dash @ '' Http/\<newline>'',
     box_bar @ ''   '' @ box_bar @ ''   '' @ box_tee @ box_dash @ box_dash @ '' Controllers/   # Request handlers\<newline>'',
     box_bar @ ''   '' @ box_bar @ ''   '' @ box_corner @ box_dash @ box_dash @ '' Middleware/    # HTTP middleware\<newline>'',
     box_bar @ ''   '' @ box_corner @ box_dash @ box_dash @ '' Models/            # Eloquent models\<newline>'',
     box_bar @ ''\<newline>'',
     box_tee @ box_dash @ box_dash @ '' config/                # Configuration files\<newline>'',
     box_bar @ ''\<newline>'',
     box_tee @ box_dash @ box_dash @ '' database/\<newline>'',
     box_bar @ ''   '' @ box_corner @ box_dash @ box_dash @ '' migrations/        # Database migrations\<newline>'',
     box_bar @ ''\<newline>'',
     box_tee @ box_dash @ box_dash @ '' resources/views/       # Blade templates\<newline>'',
     box_bar @ ''\<newline>'',
     box_tee @ box_dash @ box_dash @ '' routes/\<newline>'',
     box_bar @ ''   '' @ box_tee @ box_dash @ box_dash @ '' web.php           # Web routes\<newline>'',
     box_bar @ ''   '' @ box_corner @ box_dash @ box_dash @ '' api.php           # API routes\<newline>'',
     box_bar @ ''\<newline>'',
     box_corner @ box_dash @ box_dash @ '' public/               # Public assets\<newline>'',
     ''```'']"

definition structure_react :: string where
  "structure_react = concat
    [''```\<newline>'',
     box_tee @ box_dash @ box_dash @ '' src/\<newline>'',
     box_bar @ ''   '' @ box_tee @ box_dash @ box_dash @ '' components/        # React components\<newline>'',
     box_bar @ ''   '' @ box_tee @ box_dash @ box_dash @ '' hooks/            # Custom hooks\<newline>'',
     box_bar @ ''   '' @ box_tee @ box_dash @ box_dash @ '' store/            # State management\<newline>'',
     box_bar @ ''   '' @ box_tee @ box_dash @ box_dash @ '' api/              # API services\<newline>'',
     box_bar @ ''   '' @ box_tee @ box_dash @ box_dash @ '' types/            # TypeScript types\<newline>'',
     box_bar @ ''   '' @ box_corner @ box_dash @ box_dash @ '' App.tsx           # Root component\<newline>'',
     box_bar @ ''\<newline>'',
     box_tee @ box_dash @ box_dash @ '' public/               # Static assets\<newline>'',
     box_corner @ box_dash @ box_dash @ '' vite.config.ts        # Vite configuration\<newline>'',
     ''```'']"

definition structure_vue :: string where
  "structure_vue = concat
    [''```\<newline>'',
     box_tee @ box_dash @ box_dash @ '' src/\<newline>'',
     box_bar @ ''   '' @ box_tee @ box_dash @ box_dash @ '' components/        # Vue components\<newline>'',
     box_bar @ ''   '' @ box_tee @ box_dash @ box_dash @ '' composables/      # Composition API hooks\<newline>'',
     box_bar @ ''   '' @ box_tee @ box_dash @ box_dash @ '' stores/           # Pinia stores\<newline>'',
     box_bar @ ''   '' @ box_tee @ box_dash @ box_dash @ '' router/           # Vue Router config\<newline>'',
     box_bar @ ''   '' @ box_tee @ box_dash @ box_dash @ '' types/            # TypeScript types\<newline>'',
     box_bar @ ''   '' @ box_corner @ box_dash @ box_dash @ '' App.vue           # Root component\<newline>'',
     box_bar @ ''\<newline>'',
     box_tee @ box_dash @ box_dash @ '' public/               # Static assets\<newline>'',
     box_corner @ box_dash @ box_dash @ '' vite.config.ts        # Vite configuration\<newline>'',
     ''```'']"

definition structure_nuxt :: string where
  "structure_nuxt = concat
    [''```\<newline>'',
     box_tee @ box_dash @ box_dash @ '' pages/                 # File-based routing\<newline>'',
     box_tee @ box_dash @ box_dash @ '' components/            # Auto-imported components\<newline>'',
     box_tee @ box_dash @ box_dash @ '' composables/          # Auto-imported composables\<newline>'',
     box_tee @ box_dash @ box_dash @ '' server/\<newline>'',
     box_bar @ ''   '' @ box_corner @ box_dash @ box_dash @ '' api/              # Server API routes\<newline>'',
     box_tee @ box_dash @ box_dash @ '' public/               # Static assets\<newline>'',
     box_corner @ box_dash @ box_dash @ '' nuxt.config.ts        # Nuxt configuration\<newline>'',
     ''```'']"

definition structures :: "(string, string) dict" where
  "structures =
    [(''nextjs'', structure_nextjs),
     (''laravel'', structure_laravel),
     (''react'', structure_react),
     (''vue'', structure_vue),
     (''nuxt'', structure_nuxt)]"

text \<open>\<^verbatim>\<open>patterns.get(k)\<close> is truthy: the key is there with a non-empty text.\<close>

definition pattern_lines :: "(string, string) dict \<Rightarrow> string \<Rightarrow> string \<Rightarrow> string list" where
  "pattern_lines patterns k heading =
     (if get_or (dict_get patterns k) [] \<noteq> [] then
        [heading, ''- '' @ get_or (dict_get patterns k) [], []]
      else [])"

definition generate_structure_md_lines :: "analysis \<Rightarrow> string list" where
  "generate_structure_md_lines r =
     (let fw = get_or (framework r) ''unknown'';
          patterns = get_or (architecturePatterns r) []
      in [''# Project Structure\<newline>'',
          get_or (dict_get structures fw) ''```\<newline># Project structure\<newline>```'',
          []]
         @ (if list_ex (\<lambda>kv. snd kv \<noteq> []) patterns then
              [''\<newline>## Architecture Patterns\<newline>'']
              @ pattern_lines patterns ''stateManagement'' ''### State Management''
              @ pattern_lines patterns ''componentPattern'' ''### Component Patterns''
              @ pattern_lines patterns ''apiPattern'' ''### API Pattern''
              @ pattern_lines patterns ''styling'' ''### Styling''
            else []))"

text \<open>
  The structure and the product deriver have no operation that raises on well-shaped
  values; they return in the same sum type as the other two.
\<close>

definition generate_structure_md :: "analysis \<Rightarrow> py_error + string" where
  "generate_structure_md r = Inr (join ''\<newline>'' (generate_structure_md_lines r))"

section \<open>The product document\<close>

definition empty_readme :: readme_info where
  "empty_readme = \<lparr>readme_title = None, readme_description = None, readme_features = None\<rparr>"

text \<open>
  \<^verbatim>\<open>if readme.get("title") and "deploy" not in readme["title"].lower()\<close>
\<close>

definition title_lines :: "readme_info \<Rightarrow> string list" where
  "title_lines rm =
     (if get_or (readme_title rm) [] \<noteq> []
         \<and> \<not> str_in ''deploy'' (str_lower (get_or (readme_title rm) []))
      then [get_or (readme_title rm) [] @ ''\<newline>'']
      else [])"

definition description_lines :: "readme_info \<Rightarrow> string list" where
  "description_lines rm =
     (if get_or (readme_description rm) [] \<noteq> [] then [get_or (readme_description rm) [], []]
      else [])"

definition features_lines :: "readme_info \<Rightarrow> string list" where
  "features_lines rm =
     (if get_or (readme_features rm) [] \<noteq> [] then
        [''## Features\<newline>'']
        @ map (\<lambda>feature. ''- '' @ feature) (get_or (readme_features rm) [])
        @ [[]]
      else [])"

definition core_entity_line :: "entity \<Rightarrow> string list" where
  "core_entity_line e =
     (let name = get_or (entity_name e) [];
          desc = get_or (entity_description e) []
      in if name \<noteq> [] then
           (if desc \<noteq> [] then [''- **'' @ name @ ''**: '' @ desc]
            else [''- **'' @ name @ ''**''])
         else [])"

definition core_entities_lines :: "entity list \<Rightarrow> string list" where
  "core_entities_lines ents =
     (if ents \<noteq> [] then
        [''## Core Entities\<newline>''] @ concat (map core_entity_line (take 6 ents)) @ [[]]
      else [])"

definition generate_product_md_lines :: "analysis \<Rightarrow> string list" where
  "generate_product_md_lines r =
     (let rm = get_or (readme r) empty_readme;
          ents = get_or (entities r) []
      in [''# Product Overview\<newline>'']
         @ title_lines rm @ description_lines rm @ features_lines rm
         @ core_entities_lines ents)"

definition generate_product_md :: "analysis \<Rightarrow> py_error + string" where
  "generate_product_md r = Inr (join ''\<newline>'' (generate_product_md_lines r))"

section \<open>The business rules document\<close>

text \<open>
  One status enumeration: \<^verbatim>\<open>enum['name']\<close> and \<^verbatim>\<open>enum["values"]\<close> raise when the key
  is absent.
\<close>

fun status_enum_lines :: "status_enum list \<Rightarrow> py_error + string list" where
  "status_enum_lines [] = Inr []"
| "status_enum_lines (e # es) =
     (case enum_name e of
        None \<Rightarrow> Inl (KeyError ''name'')
      | Some n \<Rightarrow>
         (case enum_values e of
            None \<Rightarrow> Inl (KeyError ''values'')
          | Some vs \<Rightarrow>
             bind_err (status_enum_lines es)
               (\<lambda>rest. Inr ([''### '' @ n] @ map (\<lambda>v. ''- `'' @ v @ ''`'') vs @ [[]] @ rest))))"

definition status_lines :: "status_enum list \<Rightarrow> py_error + string list" where
  "status_lines status_enums =
     (if status_enums \<noteq> [] then
        bind_err (status_enum_lines status_enums)
          (\<lambda>subsections. Inr ([''## Status Values\<newline>''] @ subsections))
      else Inr [])"

text \<open>\<^verbatim>\<open>field.get("type", "").split("\n")[0][:30]\<close>\<close>

definition field_row :: "field_desc \<Rightarrow> string" where
  "field_row f =
     (let fname = get_or (field_name f) [];
          ftype = take_chars 30 (hd (split_on CHR ''\<newline>'' (get_or (field_type f) [])));
          required = (if get_or (field_optional f) False then ''No'' else ''Yes'')
      in ''| '' @ fname @ '' | `'' @ ftype @ ''` | '' @ required @ '' |'')"

definition entity_table :: "entity \<Rightarrow> string list" where
  "entity_table e =
     (let name = get_or (entity_name e) [];
          fields = get_or (entity_fields e) []
      in if name \<noteq> [] \<and> fields \<noteq> [] then
           [''### '' @ name @ ''\<newline>'',
            ''| Field | Type | Required |'',
            ''|-------|------|----------|'']
           @ map field_row (take 10 fields)
           @ [[]]
         else [])"

definition data_entities_lines :: "entity list \<Rightarrow> string list" where
  "data_entities_lines ents =
     (if ents \<noteq> [] then
        [''## Data Entities\<newline>''] @ concat (map entity_table (take 5 ents))
      else [])"

definition generate_business_rules_md_lines :: "analysis \<Rightarrow> py_error + string list" where
  "generate_business_rules_md_lines r =
     (let ents = get_or (entities r) [];
          status_enums = get_or (statusEnums r) []
      in bind_err (status_lines status_enums)
           (\<lambda>status. Inr ([''# Business Rules\<newline>''] @ status @ data_entities_lines ents)))"

definition generate_business_rules_md :: "analysis \<Rightarrow> py_error + string" where
  "generate_business_rules_md r =
     bind_err (generate_business_rules_md_lines r) (\<lambda>lines. Inr (join ''\<newline>'' lines))"

section \<open>Packaging for a target\<close>

definition wrap_kiro_format :: "string \<Rightarrow> string" where
  "wrap_kiro_format content =
     ''---\<newline>inclusion: always\<newline>---\<newline>'' @ content"

definition wrap_cursor_format :: "string \<Rightarrow> string \<Rightarrow> string" where
  "wrap_cursor_format content description =
     ''---\<newline>description: '' @ description
     @ ''\<newline>alwaysApply: true\<newline>---\<newline>'' @ content"

text \<open>\<^verbatim>\<open>for name, content in docs.items(): result[path + name] = wrap(content)\<close>\<close>

fun kiro_files :: "string \<Rightarrow> (string, string) dict \<Rightarrow> (string, string) dict \<Rightarrow> (string, string) dict" where
  "kiro_files path [] result = result"
| "kiro_files path ((name, content) # docs) result =
     kiro_files path docs (dict_set result (path @ name) (wrap_kiro_format content))"

text \<open>
  \<^verbatim>\<open>generate_steering_docs_deep\<close>. The four documents are built first, in the order of
  the dict literal; an error of a deriver is the error of the call.
\<close>

definition generate_steering_docs_deep ::
  "(string \<Rightarrow> string) \<Rightarrow> analysis \<Rightarrow> string \<Rightarrow> py_error + (string, string) dict" where
  "generate_steering_docs_deep upper r output_format =
     (let fw = get_or (framework r) ''unknown'' in
      bind_err (generate_tech_md upper r) (\<lambda>tech.
      bind_err (generate_structure_md r) (\<lambda>struct.
      bind_err (generate_product_md r) (\<lambda>product.
      bind_err (generate_business_rules_md r) (\<lambda>business.
      let docs = [(''tech.md'', tech), (''structure.md'', struct), (''product.md'', product),
                  (''business-rules.md'', business)]
      in bind_err (case dict_get IDE_CONFIGS ''markdown'' of
                     None \<Rightarrow> Inl (KeyError ''markdown'')
                   | Some fallback \<Rightarrow> Inr (get_or (dict_get IDE_CONFIGS output_format) fallback))
           (\<lambda>config.
              if output_format = ''kiro'' then Inr (kiro_files (cfg_path config) docs [])
              else
                (let combined = join ''\<newline>\<newline>---\<newline>\<newline>'' (map snd docs) in
                 if output_format = ''cursor'' then
                   (case cfg_filename config of
                      None \<Rightarrow> Inl (KeyError ''filename'')
                    | Some filename \<Rightarrow>
                       Inr [(cfg_path config @ filename,
                             wrap_cursor_format combined
                               (''Steering rules for '' @ framework_display fw @ '' project''))])
                 else
                   Inr [(cfg_path config @ get_or (cfg_filename config) ''STEERING.md'',
                         combined)])))))))"

section \<open>Conforming records\<close>

text \<open>
  The data model asks of a record that every dependency descriptor has a name and that
  every status enumeration has a name and its values. Every other field may be absent.
\<close>

definition dep_named :: "dep \<Rightarrow> bool" where
  "dep_named d = (dep_name d \<noteq> None)"

definition deps_named :: "(string, dep list) dict \<Rightarrow> bool" where
  "deps_named categorized = list_all (\<lambda>kv. list_all dep_named (snd kv)) categorized"

definition enums_complete :: "status_enum list \<Rightarrow> bool" where
  "enums_complete es = list_all (\<lambda>e. enum_name e \<noteq> None \<and> enum_values e \<noteq> None) es"

definition conforming :: "analysis \<Rightarrow> bool" where
  "conforming r =
     (deps_named (get_or (categorizedDependencies r) [])
      \<and> deps_named (get_or (categorizedDeps r) [])
      \<and> enums_complete (get_or (statusEnums r) []))"

section \<open>Notions of the specification\<close>

text \<open>
  Some dependency name contains \<open>tailwind\<close>, case-insensitively; the number of entries
  whose name contains \<open>@radix-ui\<close>.
\<close>

definition has_tailwind_dep :: "dep list \<Rightarrow> bool" where
  "has_tailwind_dep deps =
     list_ex (\<lambda>d. case dep_name d of None \<Rightarrow> False
                  | Some n \<Rightarrow> str_in ''tailwind'' (str_lower n)) deps"

definition radix_entries :: "dep list \<Rightarrow> nat" where
  "radix_entries deps =
     length (filter (\<lambda>d. case dep_name d of None \<Rightarrow> False
                        | Some n \<Rightarrow> str_in ''@radix-ui'' n) deps)"

text \<open>
  One subsection per entity: the heading, the table header and one row per field with the
  field name, the type cut to its first line and to its first 30 characters, and \<open>No\<close> for an
  optional field, \<open>Yes\<close> otherwise. An entity is rendered when it has a non-empty
  name and at least one field.
\<close>

definition first_line :: "string \<Rightarrow> string" where
  "first_line s = takeWhile (\<lambda>c. c \<noteq> CHR ''\<newline>'') s"

definition table_row :: "field_desc \<Rightarrow> string" where
  "table_row f =
     ''| '' @ get_or (field_name f) [] @ '' | `''
     @ take_chars 30 (first_line (get_or (field_type f) [])) @ ''` | ''
     @ (if field_optional f = Some True then ''No'' else ''Yes'') @ '' |''"

definition renderable :: "entity \<Rightarrow> bool" where
  "renderable e = (get_or (entity_name e) [] \<noteq> [] \<and> get_or (entity_fields e) [] \<noteq> [])"

definition entity_subsection :: "entity \<Rightarrow> string list" where
  "entity_subsection e =
     [''### '' @ get_or (entity_name e) [] @ ''\<newline>'',
      ''| Field | Type | Required |'',
      ''|-------|------|----------|'']
     @ map table_row (take 10 (get_or (entity_fields e) []))
     @ [[]]"

text \<open>
  The closed set of seven target identifiers (\<^verbatim>\<open>OutputFormat\<close>), the generic markdown
  target, and the registry entry a target identifier stands for: its own, or the generic
  one when the identifier is unknown.
\<close>

definition output_formats :: "string list" where
  "output_formats = [''kiro'', ''cursor'', ''copilot'', ''windsurf'', ''cline'', ''aider'', ''markdown'']"

definition markdown_config :: ide_config where
  "markdown_config =
     \<lparr>cfg_path = [], cfg_filename = Some ''STEERING.md'', cfg_multiple_files = False,
      cfg_description = ''Generic markdown - Single STEERING.md file'', cfg_files = None\<rparr>"

definition target_config :: "string \<Rightarrow> ide_config" where
  "target_config output_format = get_or (dict_get IDE_CONFIGS output_format) markdown_config"

text \<open>The horizontal-rule separator of the single-file targets.\<close>

definition rule_separator :: string where
  "rule_separator = ''\<newline>\<newline>---\<newline>\<newline>''"


section \<open>Example records\<close>

definition named_dep :: "string \<Rightarrow> dep" where
  "named_dep n = \<lparr>dep_name = Some n, dep_purpose = None\<rparr>"

definition empty_analysis :: analysis where
  "empty_analysis =
     \<lparr>framework = None, categorizedDependencies = None, categorizedDeps = None,
      architecturePatterns = None, scripts = None, envVars = None, readme = None,
      entities = None, statusEnums = None\<rparr>"

definition six_radix :: "dep list" where
  "six_radix = map named_dep
     [''tailwindcss'', ''@radix-ui/react-dialog'', ''@radix-ui/react-tabs'',
      ''@radix-ui/react-slot'', ''@radix-ui/react-label'', ''@radix-ui/react-toast'',
      ''@radix-ui/react-select'']"

definition five_radix :: "dep list" where
  "five_radix = map named_dep
     [''tailwindcss'', ''@radix-ui/react-dialog'', ''@radix-ui/react-tabs'',
      ''@radix-ui/react-slot'', ''@radix-ui/react-label'', ''@radix-ui/react-toast'']"

definition ui_analysis :: "dep list \<Rightarrow> analysis" where
  "ui_analysis deps = empty_analysis\<lparr>categorizedDependencies := Some [(''UI & Styling'', deps)]\<rparr>"



definition status_analysis :: analysis where
  "status_analysis =
     empty_analysis\<lparr>statusEnums := Some
       [\<lparr>enum_name = Some ''OrderStatus'', enum_values = Some [''pending'', ''shipped'']\<rparr>,
        \<lparr>enum_name = Some ''Role'', enum_values = Some [''admin'']\<rparr>]\<rparr>"

definition fieldless_analysis :: analysis where
  "fieldless_analysis =
     empty_analysis\<lparr>entities := Some
       [\<lparr>entity_name = Some ''User'', entity_description = None, entity_fields = None\<rparr>]\<rparr>"

definition long_type :: string where
  "long_type = ''{ street: string; city: string; zip: string }\<newline>| null''"

text \<open>The letter e with an acute accent, two bytes in UTF-8.\<close>

definition e_acute :: string where
  "e_acute = [CHR 0xC3, CHR 0xA9]"

definition entities_analysis :: analysis where
  "entities_analysis =
     empty_analysis\<lparr>entities := Some
       [\<lparr>entity_name = Some ''Session'', entity_description = None, entity_fields = None\<rparr>,
        \<lparr>entity_name = Some ''User'', entity_description = None,
         entity_fields = Some
           [\<lparr>field_name = Some ''id'', field_type = Some ''string'', field_optional = None\<rparr>,
            \<lparr>field_name = Some ''address'', field_type = Some long_type,
             field_optional = Some True\<rparr>,
            \<lparr>field_name = Some ''note'', field_type = Some (concat (replicate 31 e_acute)),
             field_optional = Some False\<rparr>]\<rparr>]\<rparr>"

definition titled_analysis :: "string \<Rightarrow> analysis" where
  "titled_analysis t =
     empty_analysis\<lparr>readme := Some
       \<lparr>readme_title = Some t, readme_description = Some ''A shop.'',
        readme_features = Some [''Cart'']\<rparr>\<rparr>"

definition empty_title_analysis :: analysis where
  "empty_title_analysis =
     empty_analysis\<lparr>readme := Some
       \<lparr>readme_title = Some [], readme_description = Some ''A shop.'',
        readme_features = None\<rparr>\<rparr>"


section \<open>Facts about the string helpers\<close>

lemma str_in_sublist: "str_in sub s = sublist sub s"
  by (induction s) (auto simp: sublist_Cons_right)

lemma str_in_map: "str_in sub s \<Longrightarrow> str_in (map f sub) (map f s)"
  unfolding str_in_sublist sublist_def by (metis map_append)

lemma split_on_not_Nil: "split_on c s \<noteq> []"
  by (induction s) (auto split: list.splits)

lemma hd_split_on: "hd (split_on c s) = takeWhile (\<lambda>x. x \<noteq> c) s"
  by (induction s) (auto split: list.splits simp: split_on_not_Nil)

section \<open>Facts about the technology document\<close>

lemma bind_err_Inr [simp]: "bind_err (Inr x) f = f x"
  by (simp add: bind_err_def)

lemma bind_err_Inl [simp]: "bind_err (Inl e) f = Inl e"
  by (simp add: bind_err_def)

lemma cat_list_named:
  assumes "deps_named categorized"
  shows "list_all dep_named (cat_list categorized k)"
proof (cases "map_of categorized k")
  case None
  then show ?thesis by (simp add: cat_list_def dict_get_def get_or_def)
next
  case (Some ds)
  then have "(k, ds) \<in> set categorized" by (rule map_of_SomeD)
  with assms have "list_all dep_named ds"
    by (auto simp: deps_named_def list_all_iff)
  with Some show ?thesis by (simp add: cat_list_def dict_get_def get_or_def)
qed

lemma for_names_named:
  "list_all dep_named deps \<Longrightarrow>
   for_names f deps = Inr (concat (map (\<lambda>d. f (get_or (dep_name d) [])) deps))"
  by (induction deps) (auto simp: dep_named_def name_of_def get_or_def)

lemma any_tailwind_named:
  "list_all dep_named deps \<Longrightarrow> any_tailwind deps = Inr (has_tailwind_dep deps)"
  by (induction deps) (auto simp: dep_named_def name_of_def has_tailwind_dep_def)

lemma radix_count_named:
  "list_all dep_named deps \<Longrightarrow> radix_count deps = Inr (radix_entries deps)"
  by (induction deps) (auto simp: dep_named_def name_of_def radix_entries_def)

lemma scan_named:
  "deps_named categorized \<Longrightarrow>
   scan categorized k f = Inr (concat (map (\<lambda>d. f (get_or (dep_name d) [])) (cat_list categorized k)))"
  by (simp add: scan_def for_names_named cat_list_named)

lemma key_libs_named: "deps_named categorized \<Longrightarrow> \<exists>libs. key_libs categorized = Inr libs"
  by (simp add: key_libs_def scan_named)

lemma ui_lines_named:
  assumes "deps_named categorized" and "cat_list categorized ''UI & Styling'' = deps" and "deps \<noteq> []"
  shows "ui_lines categorized =
     Inr (ui_block (has_tailwind_dep deps) (radix_entries deps)
            (concat (map (\<lambda>d. icon_line (get_or (dep_name d) [])) deps))
            (concat (map (\<lambda>d. font_line (get_or (dep_name d) []))
               (cat_list categorized ''Other''))),
          Some (has_tailwind_dep deps))"
proof -
  have named: "list_all dep_named deps"
    using assms(1,2) cat_list_named by metis
  show ?thesis
    using assms(2,3)
    by (simp add: ui_lines_def any_tailwind_named [OF named] radix_count_named [OF named]
        for_names_named [OF named] scan_named [OF assms(1)])
qed

lemma icon_lines_set:
  "set (concat (map (\<lambda>d. icon_line (get_or (dep_name d) [])) deps))
     \<subseteq> {''- **Icons**: Lucide React'', ''- **Icons**: Heroicons''}"
  by (auto simp: icon_line_def)

lemma font_lines_set:
  "set (concat (map (\<lambda>d. font_line (get_or (dep_name d) [])) deps)) \<subseteq> {''- **Font**: Geist font family''}"
  by (auto simp: font_line_def)


lemma conforming_categorized: "conforming r \<Longrightarrow> deps_named (categorized_of r)"
  by (simp add: conforming_def categorized_of_def)

lemma ui_lines_total: "deps_named categorized \<Longrightarrow> \<exists>ui. ui_lines categorized = Inr ui"
proof (cases "cat_list categorized ''UI & Styling'' = []")
  case True
  then show ?thesis by (simp add: ui_lines_def)
next
  case False
  assume "deps_named categorized"
  from ui_lines_named [OF this refl False] show ?thesis by blast
qed

lemma tech_lines_named:
  assumes "deps_named (categorized_of r)"
  shows "\<exists>ui libs. ui_lines (categorized_of r) = Inr ui \<and> key_libs (categorized_of r) = Inr libs
     \<and> generate_tech_md_lines upper r =
         Inr (tech_header @ framework_lines (get_or (framework r) ''unknown'')
              @ database_lines (categorized_of r) @ fst ui @ key_libraries_lines libs
              @ commands_lines (get_or (scripts r) []) @ env_lines upper (get_or (envVars r) [])
              @ constraints_lines (get_or (framework r) ''unknown'') (snd ui))"
proof -
  from ui_lines_total [OF assms] obtain ui where ui: "ui_lines (categorized_of r) = Inr ui" ..
  from key_libs_named [OF assms] obtain libs where libs: "key_libs (categorized_of r) = Inr libs" ..
  show ?thesis
    by (simp add: generate_tech_md_lines_def Let_def ui libs)
qed

lemma tech_md_of_lines:
  "generate_tech_md_lines upper r = Inr ls \<Longrightarrow> generate_tech_md upper r = Inr (join ''\<newline>'' ls)"
  by (simp add: generate_tech_md_def)

section \<open>Which block a heading comes from\<close>

























section \<open>The technology document without dependencies\<close>





section \<open>Where the text of the Font line can occur\<close>


















section \<open>Facts about the business rules document\<close>

lemma status_enum_lines_complete:
  "enums_complete es \<Longrightarrow>
   status_enum_lines es =
     Inr (concat (map (\<lambda>e. [''### '' @ get_or (enum_name e) []]
                          @ map (\<lambda>v. ''- `'' @ v @ ''`'') (get_or (enum_values e) [])
                          @ [[]]) es))"
  by (induction es) (auto simp: enums_complete_def get_or_def)

lemma status_lines_complete:
  "enums_complete es \<Longrightarrow> \<exists>status. status_lines es = Inr status"
  by (simp add: status_lines_def status_enum_lines_complete)

lemma field_row_table_row: "field_row f = table_row f"
  by (cases "field_optional f")
    (simp_all add: field_row_def table_row_def first_line_def hd_split_on get_or_def Let_def)

lemma entity_table_subsection:
  "entity_table e = (if renderable e then entity_subsection e else [])"
  by (simp add: entity_table_def renderable_def entity_subsection_def Let_def
      field_row_table_row [abs_def])

lemma entity_tables_filter:
  "concat (map entity_table ents) = concat (map entity_subsection (filter renderable ents))"
  by (induction ents) (simp_all add: entity_table_subsection)

lemma business_rules_md_of_lines:
  "generate_business_rules_md_lines r = Inr ls \<Longrightarrow>
   generate_business_rules_md r = Inr (join ''\<newline>'' ls)"
  by (simp add: generate_business_rules_md_def)

section \<open>Facts about the product document\<close>

lemma untitled_blocks:
  "description_lines (rm\<lparr>readme_title := None\<rparr>) = description_lines rm"
  "features_lines (rm\<lparr>readme_title := None\<rparr>) = features_lines rm"
  "title_lines (rm\<lparr>readme_title := None\<rparr>) = []"
  by (simp_all add: description_lines_def features_lines_def title_lines_def get_or_def)

lemma product_md_of_lines:
  "generate_product_md r = Inr (join ''\<newline>'' (generate_product_md_lines r))"
  by (simp add: generate_product_md_def)

section \<open>Facts about the derivers and the packaging\<close>

lemma tech_md_total:
  assumes "conforming r"
  shows "\<exists>tech. generate_tech_md upper r = Inr tech"
proof -
  from tech_lines_named [OF conforming_categorized [OF assms]]
  obtain ls where "generate_tech_md_lines upper r = Inr ls" by blast
  then show ?thesis by (simp add: generate_tech_md_def)
qed

lemma business_rules_md_total:
  assumes "conforming r"
  shows "\<exists>business. generate_business_rules_md r = Inr business"
proof -
  from assms have "enums_complete (get_or (statusEnums r) [])"
    by (simp add: conforming_def)
  from status_lines_complete [OF this] obtain status where
    "status_lines (get_or (statusEnums r) []) = Inr status" ..
  then show ?thesis
    by (simp add: generate_business_rules_md_def generate_business_rules_md_lines_def Let_def)
qed

lemma derivers_total:
  assumes "conforming r"
  shows "\<exists>tech struct product business.
      generate_tech_md upper r = Inr tech \<and> generate_structure_md r = Inr struct
    \<and> generate_product_md r = Inr product \<and> generate_business_rules_md r = Inr business"
  using tech_md_total [OF assms] business_rules_md_total [OF assms]
  by (auto simp: generate_structure_md_def generate_product_md_def)

lemma markdown_lookup: "dict_get IDE_CONFIGS ''markdown'' = Some markdown_config"
  by (simp add: dict_get_def IDE_CONFIGS_def markdown_config_def)

lemma multiple_files_kiro: "cfg_multiple_files (target_config fmt) = (fmt = ''kiro'')"
  by (simp add: target_config_def IDE_CONFIGS_def dict_get_def get_or_def markdown_config_def)

lemma kiro_config: "cfg_path (target_config ''kiro'') = ''.kiro/steering/''"
  by (simp add: target_config_def IDE_CONFIGS_def dict_get_def get_or_def)

lemma cursor_config:
  "cfg_path (target_config ''cursor'') = ''.cursor/rules/''"
  "cfg_filename (target_config ''cursor'') = Some ''project.mdc''"
  by (simp_all add: target_config_def IDE_CONFIGS_def dict_get_def get_or_def)

lemma unknown_config:
  assumes "fmt \<notin> set output_formats"
  shows "dict_get IDE_CONFIGS fmt = None" "fmt \<noteq> ''kiro''" "fmt \<noteq> ''cursor''"
  using assms by (auto simp: output_formats_def IDE_CONFIGS_def dict_get_def)

lemma kiro_files_four:
  "kiro_files path [(''tech.md'', a), (''structure.md'', b), (''product.md'', c),
      (''business-rules.md'', d)] [] =
   [(path @ ''tech.md'', wrap_kiro_format a), (path @ ''structure.md'', wrap_kiro_format b),
    (path @ ''product.md'', wrap_kiro_format c), (path @ ''business-rules.md'', wrap_kiro_format d)]"
  by simp

lemma steering_docs_kiro:
  assumes "generate_tech_md upper r = Inr tech" and "generate_structure_md r = Inr struct"
    and "generate_product_md r = Inr product" and "generate_business_rules_md r = Inr business"
  shows "generate_steering_docs_deep upper r ''kiro'' =
        Inr [(''.kiro/steering/tech.md'', wrap_kiro_format tech),
             (''.kiro/steering/structure.md'', wrap_kiro_format struct),
             (''.kiro/steering/product.md'', wrap_kiro_format product),
             (''.kiro/steering/business-rules.md'', wrap_kiro_format business)]"
proof -
  have cfg: "get_or (dict_get IDE_CONFIGS ''kiro'') markdown_config = target_config ''kiro''"
    by (simp add: target_config_def)
  show ?thesis
    by (simp add: generate_steering_docs_deep_def assms Let_def markdown_lookup cfg kiro_config)
qed

lemma steering_docs_cursor:
  assumes "generate_tech_md upper r = Inr tech" and "generate_structure_md r = Inr struct"
    and "generate_product_md r = Inr product" and "generate_business_rules_md r = Inr business"
  shows "generate_steering_docs_deep upper r ''cursor'' =
        Inr [(''.cursor/rules/project.mdc'',
              wrap_cursor_format
                (tech @ rule_separator @ struct @ rule_separator @ product
                 @ rule_separator @ business)
                (''Steering rules for '' @ framework_display (get_or (framework r) ''unknown'')
                 @ '' project''))]"
proof -
  have cfg: "get_or (dict_get IDE_CONFIGS ''cursor'') markdown_config = target_config ''cursor''"
    by (simp add: target_config_def)
  show ?thesis
    by (simp add: generate_steering_docs_deep_def assms Let_def markdown_lookup cfg cursor_config
        rule_separator_def)
qed

lemma steering_docs_plain:
  assumes "generate_tech_md upper r = Inr tech" and "generate_structure_md r = Inr struct"
    and "generate_product_md r = Inr product" and "generate_business_rules_md r = Inr business"
    and "fmt \<noteq> ''kiro''" and "fmt \<noteq> ''cursor''"
  shows "generate_steering_docs_deep upper r fmt =
        Inr [(cfg_path (target_config fmt) @ get_or (cfg_filename (target_config fmt)) ''STEERING.md'',
              tech @ rule_separator @ struct @ rule_separator @ product
              @ rule_separator @ business)]"
proof -
  have cfg: "get_or (dict_get IDE_CONFIGS fmt) markdown_config = target_config fmt"
    by (simp add: target_config_def)
  show ?thesis
    by (simp add: generate_steering_docs_deep_def assms Let_def markdown_lookup cfg
        rule_separator_def)
qed

lemma steering_docs_unknown:
  assumes "fmt \<notin> set output_formats"
  shows "generate_steering_docs_deep upper r fmt = generate_steering_docs_deep upper r ''markdown''"
  by (simp add: generate_steering_docs_deep_def Let_def markdown_lookup unknown_config [OF assms]
      get_or_def)

lemma unknown_target_config:
  assumes "fmt \<notin> set output_formats"
  shows "target_config fmt = markdown_config"
  by (simp add: target_config_def unknown_config [OF assms] get_or_def)

section \<open>The Font line and the Database block\<close>





section \<open>Environment variable descriptions: the priority order\<close>

text \<open>
  C2. The description function is total and follows the fixed priority: for every case
  mapping and every name it agrees with the exact table followed by the first matching
  rule of the ordered rule list and the default \<open>Required\<close>. \<open>STRIPE_SECRET_KEY\<close> is
  described by the exact table although the SECRET rule matches it too, while the
  lower-case \<open>stripe_secret_key\<close>, which the table does not hold, falls to the SECRET rule.
  A name that is not in the exact table, contains SECRET and URL case-insensitively and
  matches none of the five rules before SECRET is described as \<open>Secret key\<close>, not as
  \<open>Service URL\<close>.
\<close>

theorem env_var_description_priority:
  "get_env_var_description upper var = describe_by_priority upper var
   \<and> get_env_var_description upper ''STRIPE_SECRET_KEY'' = ''Stripe secret key''
   \<and> str_in ''SECRET'' (str_upper ''STRIPE_SECRET_KEY'')
   \<and> get_env_var_description str_upper ''stripe_secret_key'' = ''Secret key''
   \<and> (dict_get descriptions var = None
        \<and> str_in ''SECRET'' (upper var) \<and> str_in ''URL'' (upper var)
        \<and> \<not> (str_in ''SUPABASE'' (upper var) \<and> str_in ''URL'' (upper var))
        \<and> \<not> (str_in ''SUPABASE'' (upper var) \<and> str_in ''ANON'' (upper var))
        \<and> \<not> (str_in ''SUPABASE'' (upper var) \<and> str_in ''SERVICE'' (upper var))
        \<and> \<not> (str_in ''DATABASE'' (upper var) \<or> str_in ''DB_'' (upper var))
        \<and> \<not> (str_in ''API_KEY'' (upper var) \<or> str_in ''APIKEY'' (upper var))
      \<longrightarrow> get_env_var_description upper var = ''Secret key''
          \<and> get_env_var_description upper var \<noteq> ''Service URL'')"
proof -
  have refines: "get_env_var_description upper var = describe_by_priority upper var"
    by (simp add: get_env_var_description_def describe_by_priority_def dict_get_def
        substring_rules_def Let_def split: option.splits)
  have stripe: "get_env_var_description upper ''STRIPE_SECRET_KEY'' = ''Stripe secret key''"
    by (simp add: get_env_var_description_def dict_get_def descriptions_def)
  have secret_rule: "str_in ''SECRET'' (str_upper ''STRIPE_SECRET_KEY'')"
    by (simp add: str_upper_def upper_char_def)
  have lower_case: "get_env_var_description str_upper ''stripe_secret_key'' = ''Secret key''"
    by code_simp
  have secret_before_url:
    "dict_get descriptions var = None
        \<and> str_in ''SECRET'' (upper var) \<and> str_in ''URL'' (upper var)
        \<and> \<not> (str_in ''SUPABASE'' (upper var) \<and> str_in ''URL'' (upper var))
        \<and> \<not> (str_in ''SUPABASE'' (upper var) \<and> str_in ''ANON'' (upper var))
        \<and> \<not> (str_in ''SUPABASE'' (upper var) \<and> str_in ''SERVICE'' (upper var))
        \<and> \<not> (str_in ''DATABASE'' (upper var) \<or> str_in ''DB_'' (upper var))
        \<and> \<not> (str_in ''API_KEY'' (upper var) \<or> str_in ''APIKEY'' (upper var))
      \<longrightarrow> get_env_var_description upper var = ''Secret key''
          \<and> get_env_var_description upper var \<noteq> ''Service URL''"
    by (simp add: get_env_var_description_def Let_def)
  show ?thesis
    by (rule conjI [OF refines conjI [OF stripe conjI [OF secret_rule
        conjI [OF lower_case secret_before_url]]]])
qed

theorem env_var_description_priority_witness:
  "dict_get descriptions ''Api_Secret_Url'' = None
   \<and> str_upper ''Api_Secret_Url'' = ''API_SECRET_URL''
   \<and> str_in ''SECRET'' (str_upper ''Api_Secret_Url'')
   \<and> str_in ''URL'' (str_upper ''Api_Secret_Url'')
   \<and> \<not> str_in ''SUPABASE'' (str_upper ''Api_Secret_Url'')
   \<and> \<not> str_in ''DATABASE'' (str_upper ''Api_Secret_Url'')
   \<and> \<not> str_in ''DB_'' (str_upper ''Api_Secret_Url'')
   \<and> \<not> str_in ''API_KEY'' (str_upper ''Api_Secret_Url'')
   \<and> \<not> str_in ''APIKEY'' (str_upper ''Api_Secret_Url'')
   \<and> get_env_var_description str_upper ''Api_Secret_Url'' = ''Secret key''
   \<and> describe_by_priority str_upper ''Api_Secret_Url'' = ''Secret key''"
proof -
  have table: "dict_get descriptions ''Api_Secret_Url'' = None"
    by (simp add: dict_get_def descriptions_def)
  have up: "str_upper ''Api_Secret_Url'' = ''API_SECRET_URL''"
    by (simp add: str_upper_def upper_char_def)
  have tests: "str_in ''SECRET'' ''API_SECRET_URL''" "str_in ''URL'' ''API_SECRET_URL''"
      "\<not> str_in ''SUPABASE'' ''API_SECRET_URL''" "\<not> str_in ''DATABASE'' ''API_SECRET_URL''"
      "\<not> str_in ''DB_'' ''API_SECRET_URL''" "\<not> str_in ''API_KEY'' ''API_SECRET_URL''"
      "\<not> str_in ''APIKEY'' ''API_SECRET_URL''"
    by simp_all
  note inst = env_var_description_priority [of str_upper "''Api_Secret_Url''"]
  from inst table tests
  have described: "get_env_var_description str_upper ''Api_Secret_Url'' = ''Secret key''"
    unfolding up by blast
  from inst have "get_env_var_description str_upper ''Api_Secret_Url''
      = describe_by_priority str_upper ''Api_Secret_Url''"
    by (rule conjunct1)
  with described have spec: "describe_by_priority str_upper ''Api_Secret_Url'' = ''Secret key''"
    by simp
  from table up tests described spec show ?thesis
    unfolding up by (intro conjI)
qed

section \<open>The UI block: Tailwind and Radix\<close>

text \<open>
  C1. For every conforming record whose \<open>UI & Styling\<close> category is non-empty, the
  technology document is the lines of its blocks joined by newlines, the UI block standing
  between the Database block and the key libraries, and: when some dependency name of
  the category contains \<open>tailwind\<close> (case-insensitively) and strictly more than 5 of its
  entries have a name containing \<open>@radix-ui\<close>, the UI block holds the
  \<open>shadcn/ui (built on Radix UI)\<close> line and not the plain \<open>UI Primitives: Radix UI\<close>
  line; when the count is positive and that conjunction fails, it holds the plain line
  and not the other.
\<close>

theorem radix_tailwind_tie_break:
  assumes "conforming r"
    and "cat_list (categorized_of r) ''UI & Styling'' = deps"
    and "deps \<noteq> []"
  shows "\<exists>ui libs.
      ui_lines (categorized_of r) = Inr (ui, Some (has_tailwind_dep deps))
    \<and> key_libs (categorized_of r) = Inr libs
    \<and> generate_tech_md upper r =
        Inr (join ''\<newline>''
          (tech_header @ framework_lines (get_or (framework r) ''unknown'')
           @ database_lines (categorized_of r) @ ui @ key_libraries_lines libs
           @ commands_lines (get_or (scripts r) []) @ env_lines upper (get_or (envVars r) [])
           @ constraints_lines (get_or (framework r) ''unknown'')
               (Some (has_tailwind_dep deps))))
    \<and> (has_tailwind_dep deps \<and> radix_entries deps > 5 \<longrightarrow>
          ''- **Component Library**: shadcn/ui (built on Radix UI)'' \<in> set ui
          \<and> ''- **UI Primitives**: Radix UI'' \<notin> set ui)
    \<and> (radix_entries deps > 0 \<and> \<not> (has_tailwind_dep deps \<and> radix_entries deps > 5) \<longrightarrow>
          ''- **UI Primitives**: Radix UI'' \<in> set ui
          \<and> ''- **Component Library**: shadcn/ui (built on Radix UI)'' \<notin> set ui)"
proof -
  have named: "deps_named (categorized_of r)"
    using assms(1) by (rule conforming_categorized)
  define icons where "icons = concat (map (\<lambda>d. icon_line (get_or (dep_name d) [])) deps)"
  define fonts where "fonts = concat (map (\<lambda>d. font_line (get_or (dep_name d) []))
      (cat_list (categorized_of r) ''Other''))"
  define ui where "ui = ui_block (has_tailwind_dep deps) (radix_entries deps) icons fonts"
  have block: "ui_lines (categorized_of r) = Inr (ui, Some (has_tailwind_dep deps))"
    unfolding ui_def icons_def fonts_def by (rule ui_lines_named [OF named assms(2,3)])
  from tech_lines_named [OF named, of upper] block obtain libs where
    libs: "key_libs (categorized_of r) = Inr libs" and
    "generate_tech_md_lines upper r =
         Inr (tech_header @ framework_lines (get_or (framework r) ''unknown'')
              @ database_lines (categorized_of r) @ ui @ key_libraries_lines libs
              @ commands_lines (get_or (scripts r) []) @ env_lines upper (get_or (envVars r) [])
              @ constraints_lines (get_or (framework r) ''unknown'') (Some (has_tailwind_dep deps)))"
    by auto
  from tech_md_of_lines [OF this(2)]
  have doc: "generate_tech_md upper r =
        Inr (join ''\<newline>''
          (tech_header @ framework_lines (get_or (framework r) ''unknown'')
           @ database_lines (categorized_of r) @ ui @ key_libraries_lines libs
           @ commands_lines (get_or (scripts r) []) @ env_lines upper (get_or (envVars r) [])
           @ constraints_lines (get_or (framework r) ''unknown'')
               (Some (has_tailwind_dep deps))))" .
  have icons: "set icons \<subseteq> {''- **Icons**: Lucide React'', ''- **Icons**: Heroicons''}"
    unfolding icons_def by (rule icon_lines_set)
  have fonts: "set fonts \<subseteq> {''- **Font**: Geist font family''}"
    unfolding fonts_def by (rule font_lines_set)
  have upgraded: "has_tailwind_dep deps \<and> radix_entries deps > 5 \<longrightarrow>
          ''- **Component Library**: shadcn/ui (built on Radix UI)'' \<in> set ui
          \<and> ''- **UI Primitives**: Radix UI'' \<notin> set ui"
    using icons fonts by (auto simp: ui_def ui_block_def)
  have plain: "radix_entries deps > 0 \<and> \<not> (has_tailwind_dep deps \<and> radix_entries deps > 5) \<longrightarrow>
          ''- **UI Primitives**: Radix UI'' \<in> set ui
          \<and> ''- **Component Library**: shadcn/ui (built on Radix UI)'' \<notin> set ui"
    using icons fonts by (auto simp: ui_def ui_block_def)
  show ?thesis
    by (intro exI [of _ ui] exI [of _ libs])
      (rule conjI [OF block conjI [OF libs conjI [OF doc conjI [OF upgraded plain]]]])
qed

theorem radix_tailwind_tie_break_witness:
  "(conforming (ui_analysis six_radix)
    \<and> cat_list (categorized_of (ui_analysis six_radix)) ''UI & Styling'' = six_radix
    \<and> six_radix \<noteq> [] \<and> has_tailwind_dep six_radix \<and> radix_entries six_radix = 6
    \<and> (\<exists>ui. ui_lines (categorized_of (ui_analysis six_radix)) = Inr (ui, Some True)
        \<and> ''- **Component Library**: shadcn/ui (built on Radix UI)'' \<in> set ui
        \<and> ''- **UI Primitives**: Radix UI'' \<notin> set ui)
    \<and> generate_tech_md str_upper (ui_analysis six_radix) =
        Inr ''# Technology Stack\<newline>\<newline>This document defines the technology choices for this project. \<newline>Use these technologies when generating code and suggestions.\<newline>\<newline>## Framework & Runtime\<newline>\<newline>- **Framework**: unknown\<newline>\<newline>## UI & Styling\<newline>\<newline>- **CSS Framework**: Tailwind CSS (utility-first)\<newline>- **Component Library**: shadcn/ui (built on Radix UI)\<newline>\<newline>## Technical Constraints\<newline>\<newline>When generating code, follow these constraints:\<newline>\<newline>- Use Tailwind CSS classes, avoid inline styles\<newline>- Follow TypeScript strict mode\<newline>'')
   \<and> (conforming (ui_analysis five_radix)
    \<and> cat_list (categorized_of (ui_analysis five_radix)) ''UI & Styling'' = five_radix
    \<and> five_radix \<noteq> [] \<and> has_tailwind_dep five_radix \<and> radix_entries five_radix = 5
    \<and> (\<exists>ui. ui_lines (categorized_of (ui_analysis five_radix)) = Inr (ui, Some True)
        \<and> ''- **UI Primitives**: Radix UI'' \<in> set ui
        \<and> ''- **Component Library**: shadcn/ui (built on Radix UI)'' \<notin> set ui)
    \<and> generate_tech_md str_upper (ui_analysis five_radix) =
        Inr ''# Technology Stack\<newline>\<newline>This document defines the technology choices for this project. \<newline>Use these technologies when generating code and suggestions.\<newline>\<newline>## Framework & Runtime\<newline>\<newline>- **Framework**: unknown\<newline>\<newline>## UI & Styling\<newline>\<newline>- **CSS Framework**: Tailwind CSS (utility-first)\<newline>- **UI Primitives**: Radix UI\<newline>\<newline>## Technical Constraints\<newline>\<newline>When generating code, follow these constraints:\<newline>\<newline>- Use Tailwind CSS classes, avoid inline styles\<newline>- Follow TypeScript strict mode\<newline>'')"
proof -
  have c6: "conforming (ui_analysis six_radix)"
    by (simp add: conforming_def ui_analysis_def empty_analysis_def get_or_def deps_named_def
        dep_named_def six_radix_def named_dep_def enums_complete_def)
  have l6: "cat_list (categorized_of (ui_analysis six_radix)) ''UI & Styling'' = six_radix"
    by (simp add: categorized_of_def ui_analysis_def empty_analysis_def get_or_def cat_list_def
        dict_get_def)
  have n6: "six_radix \<noteq> []"
    by (simp add: six_radix_def)
  have t6: "has_tailwind_dep six_radix"
    by (simp add: has_tailwind_dep_def six_radix_def named_dep_def str_lower_def lower_char_def)
  have r6: "radix_entries six_radix = 6"
    by (simp add: radix_entries_def six_radix_def named_dep_def)
  have c5: "conforming (ui_analysis five_radix)"
    by (simp add: conforming_def ui_analysis_def empty_analysis_def get_or_def deps_named_def
        dep_named_def five_radix_def named_dep_def enums_complete_def)
  have l5: "cat_list (categorized_of (ui_analysis five_radix)) ''UI & Styling'' = five_radix"
    by (simp add: categorized_of_def ui_analysis_def empty_analysis_def get_or_def cat_list_def
        dict_get_def)
  have n5: "five_radix \<noteq> []"
    by (simp add: five_radix_def)
  have t5: "has_tailwind_dep five_radix"
    by (simp add: has_tailwind_dep_def five_radix_def named_dep_def str_lower_def lower_char_def)
  have r5: "radix_entries five_radix = 5"
    by (simp add: radix_entries_def five_radix_def named_dep_def)
  from radix_tailwind_tie_break [OF c6 l6 n6, of str_upper] have six:
    "\<exists>ui. ui_lines (categorized_of (ui_analysis six_radix)) = Inr (ui, Some True)
        \<and> ''- **Component Library**: shadcn/ui (built on Radix UI)'' \<in> set ui
        \<and> ''- **UI Primitives**: Radix UI'' \<notin> set ui"
    by (auto simp: t6 r6)
  from radix_tailwind_tie_break [OF c5 l5 n5, of str_upper] have five:
    "\<exists>ui. ui_lines (categorized_of (ui_analysis five_radix)) = Inr (ui, Some True)
        \<and> ''- **UI Primitives**: Radix UI'' \<in> set ui
        \<and> ''- **Component Library**: shadcn/ui (built on Radix UI)'' \<notin> set ui"
    by (auto simp: t5 r5)
  have doc6: "generate_tech_md str_upper (ui_analysis six_radix) =
        Inr ''# Technology Stack\<newline>\<newline>This document defines the technology choices for this project. \<newline>Use these technologies when generating code and suggestions.\<newline>\<newline>## Framework & Runtime\<newline>\<newline>- **Framework**: unknown\<newline>\<newline>## UI & Styling\<newline>\<newline>- **CSS Framework**: Tailwind CSS (utility-first)\<newline>- **Component Library**: shadcn/ui (built on Radix UI)\<newline>\<newline>## Technical Constraints\<newline>\<newline>When generating code, follow these constraints:\<newline>\<newline>- Use Tailwind CSS classes, avoid inline styles\<newline>- Follow TypeScript strict mode\<newline>''"
    by code_simp
  have doc5: "generate_tech_md str_upper (ui_analysis five_radix) =
        Inr ''# Technology Stack\<newline>\<newline>This document defines the technology choices for this project. \<newline>Use these technologies when generating code and suggestions.\<newline>\<newline>## Framework & Runtime\<newline>\<newline>- **Framework**: unknown\<newline>\<newline>## UI & Styling\<newline>\<newline>- **CSS Framework**: Tailwind CSS (utility-first)\<newline>- **UI Primitives**: Radix UI\<newline>\<newline>## Technical Constraints\<newline>\<newline>When generating code, follow these constraints:\<newline>\<newline>- Use Tailwind CSS classes, avoid inline styles\<newline>- Follow TypeScript strict mode\<newline>''"
    by code_simp
  have first: "conforming (ui_analysis six_radix)
    \<and> cat_list (categorized_of (ui_analysis six_radix)) ''UI & Styling'' = six_radix
    \<and> six_radix \<noteq> [] \<and> has_tailwind_dep six_radix \<and> radix_entries six_radix = 6
    \<and> (\<exists>ui. ui_lines (categorized_of (ui_analysis six_radix)) = Inr (ui, Some True)
        \<and> ''- **Component Library**: shadcn/ui (built on Radix UI)'' \<in> set ui
        \<and> ''- **UI Primitives**: Radix UI'' \<notin> set ui)
    \<and> generate_tech_md str_upper (ui_analysis six_radix) =
        Inr ''# Technology Stack\<newline>\<newline>This document defines the technology choices for this project. \<newline>Use these technologies when generating code and suggestions.\<newline>\<newline>## Framework & Runtime\<newline>\<newline>- **Framework**: unknown\<newline>\<newline>## UI & Styling\<newline>\<newline>- **CSS Framework**: Tailwind CSS (utility-first)\<newline>- **Component Library**: shadcn/ui (built on Radix UI)\<newline>\<newline>## Technical Constraints\<newline>\<newline>When generating code, follow these constraints:\<newline>\<newline>- Use Tailwind CSS classes, avoid inline styles\<newline>- Follow TypeScript strict mode\<newline>''"
    by (rule conjI [OF c6 conjI [OF l6 conjI [OF n6 conjI [OF t6 conjI [OF r6
        conjI [OF six doc6]]]]]])
  have second: "conforming (ui_analysis five_radix)
    \<and> cat_list (categorized_of (ui_analysis five_radix)) ''UI & Styling'' = five_radix
    \<and> five_radix \<noteq> [] \<and> has_tailwind_dep five_radix \<and> radix_entries five_radix = 5
    \<and> (\<exists>ui. ui_lines (categorized_of (ui_analysis five_radix)) = Inr (ui, Some True)
        \<and> ''- **UI Primitives**: Radix UI'' \<in> set ui
        \<and> ''- **Component Library**: shadcn/ui (built on Radix UI)'' \<notin> set ui)
    \<and> generate_tech_md str_upper (ui_analysis five_radix) =
        Inr ''# Technology Stack\<newline>\<newline>This document defines the technology choices for this project. \<newline>Use these technologies when generating code and suggestions.\<newline>\<newline>## Framework & Runtime\<newline>\<newline>- **Framework**: unknown\<newline>\<newline>## UI & Styling\<newline>\<newline>- **CSS Framework**: Tailwind CSS (utility-first)\<newline>- **UI Primitives**: Radix UI\<newline>\<newline>## Technical Constraints\<newline>\<newline>When generating code, follow these constraints:\<newline>\<newline>- Use Tailwind CSS classes, avoid inline styles\<newline>- Follow TypeScript strict mode\<newline>''"
    by (rule conjI [OF c5 conjI [OF l5 conjI [OF n5 conjI [OF t5 conjI [OF r5
        conjI [OF five doc5]]]]]])
  show ?thesis by (rule conjI [OF first second])
qed

section \<open>Packaging: several files or one\<close>

text \<open>
  C3. For every conforming record the four derivers return their bodies and the synthesis
  returns the bundle. When the target wants multiple files (only \<open>kiro\<close> does), the
  bundle has exactly four entries, one per document key at the target directory
  followed by the key, each the always-load front-matter followed by the body. When the
  target wants a single file, the bundle has exactly one entry, at the target directory
  followed by the target file name: the four bodies in the order tech, structure,
  product, business-rules with the horizontal-rule separator between them, preceded by
  the description/alwaysApply front-matter for \<open>cursor\<close> and by nothing for every other
  target.
\<close>

theorem steering_docs_packaging:
  assumes "conforming r"
  shows "\<exists>tech struct product business.
      generate_tech_md upper r = Inr tech \<and> generate_structure_md r = Inr struct
    \<and> generate_product_md r = Inr product \<and> generate_business_rules_md r = Inr business
    \<and> (cfg_multiple_files (target_config fmt) \<longrightarrow>
          fmt = ''kiro'' \<and> cfg_path (target_config fmt) = ''.kiro/steering/''
        \<and> generate_steering_docs_deep upper r fmt =
            Inr [(''.kiro/steering/tech.md'',
                  ''---\<newline>inclusion: always\<newline>---\<newline>'' @ tech),
                 (''.kiro/steering/structure.md'',
                  ''---\<newline>inclusion: always\<newline>---\<newline>'' @ struct),
                 (''.kiro/steering/product.md'',
                  ''---\<newline>inclusion: always\<newline>---\<newline>'' @ product),
                 (''.kiro/steering/business-rules.md'',
                  ''---\<newline>inclusion: always\<newline>---\<newline>'' @ business)])
    \<and> (\<not> cfg_multiple_files (target_config fmt) \<longrightarrow>
          generate_steering_docs_deep upper r fmt =
            Inr [(cfg_path (target_config fmt)
                    @ get_or (cfg_filename (target_config fmt)) ''STEERING.md'',
                  (if fmt = ''cursor'' then
                     ''---\<newline>description: Steering rules for ''
                     @ framework_display (get_or (framework r) ''unknown'')
                     @ '' project\<newline>alwaysApply: true\<newline>---\<newline>''
                   else [])
                  @ tech @ rule_separator @ struct @ rule_separator @ product
                  @ rule_separator @ business)])"
proof -
  from derivers_total [OF assms] obtain tech struct product business where
    d: "generate_tech_md upper r = Inr tech" "generate_structure_md r = Inr struct"
      "generate_product_md r = Inr product" "generate_business_rules_md r = Inr business"
    by blast
  have multi: "cfg_multiple_files (target_config fmt) \<longrightarrow>
          fmt = ''kiro'' \<and> cfg_path (target_config fmt) = ''.kiro/steering/''
        \<and> generate_steering_docs_deep upper r fmt =
            Inr [(''.kiro/steering/tech.md'',
                  ''---\<newline>inclusion: always\<newline>---\<newline>'' @ tech),
                 (''.kiro/steering/structure.md'',
                  ''---\<newline>inclusion: always\<newline>---\<newline>'' @ struct),
                 (''.kiro/steering/product.md'',
                  ''---\<newline>inclusion: always\<newline>---\<newline>'' @ product),
                 (''.kiro/steering/business-rules.md'',
                  ''---\<newline>inclusion: always\<newline>---\<newline>'' @ business)]"
  proof
    assume "cfg_multiple_files (target_config fmt)"
    then have k: "fmt = ''kiro''"
      by (simp add: multiple_files_kiro)
    show "fmt = ''kiro'' \<and> cfg_path (target_config fmt) = ''.kiro/steering/''
        \<and> generate_steering_docs_deep upper r fmt =
            Inr [(''.kiro/steering/tech.md'',
                  ''---\<newline>inclusion: always\<newline>---\<newline>'' @ tech),
                 (''.kiro/steering/structure.md'',
                  ''---\<newline>inclusion: always\<newline>---\<newline>'' @ struct),
                 (''.kiro/steering/product.md'',
                  ''---\<newline>inclusion: always\<newline>---\<newline>'' @ product),
                 (''.kiro/steering/business-rules.md'',
                  ''---\<newline>inclusion: always\<newline>---\<newline>'' @ business)]"
      unfolding k using steering_docs_kiro [OF d] kiro_config
      by (simp add: wrap_kiro_format_def)
  qed
  have single: "\<not> cfg_multiple_files (target_config fmt) \<longrightarrow>
          generate_steering_docs_deep upper r fmt =
            Inr [(cfg_path (target_config fmt)
                    @ get_or (cfg_filename (target_config fmt)) ''STEERING.md'',
                  (if fmt = ''cursor'' then
                     ''---\<newline>description: Steering rules for ''
                     @ framework_display (get_or (framework r) ''unknown'')
                     @ '' project\<newline>alwaysApply: true\<newline>---\<newline>''
                   else [])
                  @ tech @ rule_separator @ struct @ rule_separator @ product
                  @ rule_separator @ business)]"
  proof
    assume "\<not> cfg_multiple_files (target_config fmt)"
    then have k: "fmt \<noteq> ''kiro''"
      by (simp add: multiple_files_kiro)
    show "generate_steering_docs_deep upper r fmt =
            Inr [(cfg_path (target_config fmt)
                    @ get_or (cfg_filename (target_config fmt)) ''STEERING.md'',
                  (if fmt = ''cursor'' then
                     ''---\<newline>description: Steering rules for ''
                     @ framework_display (get_or (framework r) ''unknown'')
                     @ '' project\<newline>alwaysApply: true\<newline>---\<newline>''
                   else [])
                  @ tech @ rule_separator @ struct @ rule_separator @ product
                  @ rule_separator @ business)]"
    proof (cases "fmt = ''cursor''")
      case True
      show ?thesis
        unfolding True using steering_docs_cursor [OF d]
        by (simp add: cursor_config wrap_cursor_format_def get_or_def)
    next
      case False
      with steering_docs_plain [OF d k] show ?thesis by simp
    qed
  qed
  from d multi single show ?thesis by blast
qed

theorem steering_docs_packaging_witness:
  "conforming empty_analysis
   \<and> cfg_multiple_files (target_config ''kiro'')
   \<and> (\<exists>tech struct product business.
        generate_tech_md str_upper empty_analysis = Inr tech
      \<and> generate_structure_md empty_analysis = Inr struct
      \<and> generate_product_md empty_analysis = Inr product
      \<and> generate_business_rules_md empty_analysis = Inr business
      \<and> generate_steering_docs_deep str_upper empty_analysis ''kiro'' =
            Inr [(''.kiro/steering/tech.md'',
                  ''---\<newline>inclusion: always\<newline>---\<newline>'' @ tech),
                 (''.kiro/steering/structure.md'',
                  ''---\<newline>inclusion: always\<newline>---\<newline>'' @ struct),
                 (''.kiro/steering/product.md'',
                  ''---\<newline>inclusion: always\<newline>---\<newline>'' @ product),
                 (''.kiro/steering/business-rules.md'',
                  ''---\<newline>inclusion: always\<newline>---\<newline>'' @ business)])
   \<and> \<not> cfg_multiple_files (target_config ''cursor'')
   \<and> (\<exists>tech struct product business.
        generate_tech_md str_upper empty_analysis = Inr tech
      \<and> generate_structure_md empty_analysis = Inr struct
      \<and> generate_product_md empty_analysis = Inr product
      \<and> generate_business_rules_md empty_analysis = Inr business
      \<and> generate_steering_docs_deep str_upper empty_analysis ''cursor'' =
            Inr [(''.cursor/rules/project.mdc'',
                  ''---\<newline>description: Steering rules for unknown project\<newline>alwaysApply: true\<newline>---\<newline>''
                  @ tech @ rule_separator @ struct @ rule_separator @ product
                  @ rule_separator @ business)])
   \<and> \<not> cfg_multiple_files (target_config ''aider'')
   \<and> (\<exists>tech struct product business.
        generate_tech_md str_upper empty_analysis = Inr tech
      \<and> generate_structure_md empty_analysis = Inr struct
      \<and> generate_product_md empty_analysis = Inr product
      \<and> generate_business_rules_md empty_analysis = Inr business
      \<and> generate_steering_docs_deep str_upper empty_analysis ''aider'' =
            Inr [(''CONVENTIONS.md'',
                  tech @ rule_separator @ struct @ rule_separator @ product
                  @ rule_separator @ business)])"
proof -
  have c: "conforming empty_analysis"
    by (simp add: conforming_def empty_analysis_def get_or_def deps_named_def enums_complete_def)
  have k: "cfg_multiple_files (target_config ''kiro'')"
    by (simp add: multiple_files_kiro)
  have u: "\<not> cfg_multiple_files (target_config ''cursor'')"
    by (simp add: multiple_files_kiro)
  have a: "\<not> cfg_multiple_files (target_config ''aider'')"
    by (simp add: multiple_files_kiro)
  have fw: "framework_display (get_or (framework empty_analysis) ''unknown'') = ''unknown''"
    by (simp add: empty_analysis_def get_or_def framework_display_def dict_get_def
        FRAMEWORK_NAMES_def)
  have aider: "cfg_path (target_config ''aider'')
      @ get_or (cfg_filename (target_config ''aider'')) ''STEERING.md'' = ''CONVENTIONS.md''"
    by (simp add: target_config_def IDE_CONFIGS_def dict_get_def get_or_def)
  have cursor: "cfg_path (target_config ''cursor'')
      @ get_or (cfg_filename (target_config ''cursor'')) ''STEERING.md''
      = ''.cursor/rules/project.mdc''"
    by (simp add: cursor_config get_or_def)
  from steering_docs_packaging [OF c, of str_upper "''kiro''"] k
  have kiro_bundle: "\<exists>tech struct product business.
        generate_tech_md str_upper empty_analysis = Inr tech
      \<and> generate_structure_md empty_analysis = Inr struct
      \<and> generate_product_md empty_analysis = Inr product
      \<and> generate_business_rules_md empty_analysis = Inr business
      \<and> generate_steering_docs_deep str_upper empty_analysis ''kiro'' =
            Inr [(''.kiro/steering/tech.md'',
                  ''---\<newline>inclusion: always\<newline>---\<newline>'' @ tech),
                 (''.kiro/steering/structure.md'',
                  ''---\<newline>inclusion: always\<newline>---\<newline>'' @ struct),
                 (''.kiro/steering/product.md'',
                  ''---\<newline>inclusion: always\<newline>---\<newline>'' @ product),
                 (''.kiro/steering/business-rules.md'',
                  ''---\<newline>inclusion: always\<newline>---\<newline>'' @ business)]"
    by blast
  from steering_docs_packaging [OF c, of str_upper "''cursor''"] u
  have cursor_bundle: "\<exists>tech struct product business.
        generate_tech_md str_upper empty_analysis = Inr tech
      \<and> generate_structure_md empty_analysis = Inr struct
      \<and> generate_product_md empty_analysis = Inr product
      \<and> generate_business_rules_md empty_analysis = Inr business
      \<and> generate_steering_docs_deep str_upper empty_analysis ''cursor'' =
            Inr [(''.cursor/rules/project.mdc'',
                  ''---\<newline>description: Steering rules for unknown project\<newline>alwaysApply: true\<newline>---\<newline>''
                  @ tech @ rule_separator @ struct @ rule_separator @ product
                  @ rule_separator @ business)]"
    unfolding cursor fw by (simp del: append_assoc add: append_assoc [symmetric])
  from steering_docs_packaging [OF c, of str_upper "''aider''"] a
  have aider_bundle: "\<exists>tech struct product business.
        generate_tech_md str_upper empty_analysis = Inr tech
      \<and> generate_structure_md empty_analysis = Inr struct
      \<and> generate_product_md empty_analysis = Inr product
      \<and> generate_business_rules_md empty_analysis = Inr business
      \<and> generate_steering_docs_deep str_upper empty_analysis ''aider'' =
            Inr [(''CONVENTIONS.md'',
                  tech @ rule_separator @ struct @ rule_separator @ product
                  @ rule_separator @ business)]"
    unfolding aider by simp
  show ?thesis
    by (rule conjI [OF c conjI [OF k conjI [OF kiro_bundle conjI [OF u conjI [OF cursor_bundle
        conjI [OF a aider_bundle]]]]]])
qed

section \<open>Unknown targets\<close>

text \<open>
  C4. For every record and every target identifier outside the closed set of seven, the
  synthesis gives what it gives for the generic \<open>markdown\<close> target; for a conforming record
  it does not fail, and the bundle is the single entry \<open>STEERING.md\<close> holding the combined
  body with no wrapper.
\<close>

theorem unknown_target_falls_back:
  assumes "fmt \<notin> set output_formats"
  shows "generate_steering_docs_deep upper r fmt = generate_steering_docs_deep upper r ''markdown''
    \<and> (conforming r \<longrightarrow>
         (\<exists>tech struct product business.
            generate_tech_md upper r = Inr tech \<and> generate_structure_md r = Inr struct
          \<and> generate_product_md r = Inr product \<and> generate_business_rules_md r = Inr business
          \<and> generate_steering_docs_deep upper r fmt =
              Inr [(''STEERING.md'',
                    tech @ rule_separator @ struct @ rule_separator @ product
                    @ rule_separator @ business)]))"
proof -
  note same = steering_docs_unknown [OF assms]
  have path: "cfg_path (target_config fmt) @ get_or (cfg_filename (target_config fmt)) ''STEERING.md''
      = ''STEERING.md''"
    by (simp add: unknown_target_config [OF assms] markdown_config_def get_or_def)
  have packed: "conforming r \<longrightarrow>
         (\<exists>tech struct product business.
            generate_tech_md upper r = Inr tech \<and> generate_structure_md r = Inr struct
          \<and> generate_product_md r = Inr product \<and> generate_business_rules_md r = Inr business
          \<and> generate_steering_docs_deep upper r fmt =
              Inr [(''STEERING.md'',
                    tech @ rule_separator @ struct @ rule_separator @ product
                    @ rule_separator @ business)])"
  proof
    assume "conforming r"
    from derivers_total [OF this] obtain tech struct product business where
      d: "generate_tech_md upper r = Inr tech" "generate_structure_md r = Inr struct"
        "generate_product_md r = Inr product" "generate_business_rules_md r = Inr business"
      by blast
    from steering_docs_plain [OF d unknown_config(2,3) [OF assms]]
    have "generate_steering_docs_deep upper r fmt =
              Inr [(''STEERING.md'',
                    tech @ rule_separator @ struct @ rule_separator @ product
                    @ rule_separator @ business)]"
      unfolding path .
    with d show "\<exists>tech struct product business.
            generate_tech_md upper r = Inr tech \<and> generate_structure_md r = Inr struct
          \<and> generate_product_md r = Inr product \<and> generate_business_rules_md r = Inr business
          \<and> generate_steering_docs_deep upper r fmt =
              Inr [(''STEERING.md'',
                    tech @ rule_separator @ struct @ rule_separator @ product
                    @ rule_separator @ business)]"
      by blast
  qed
  show ?thesis by (rule conjI [OF same packed])
qed

theorem unknown_target_falls_back_witness:
  "''vscode'' \<notin> set output_formats
   \<and> conforming empty_analysis
   \<and> generate_steering_docs_deep str_upper empty_analysis ''vscode''
       = generate_steering_docs_deep str_upper empty_analysis ''markdown''
   \<and> (\<exists>tech struct product business.
            generate_tech_md str_upper empty_analysis = Inr tech
          \<and> generate_structure_md empty_analysis = Inr struct
          \<and> generate_product_md empty_analysis = Inr product
          \<and> generate_business_rules_md empty_analysis = Inr business
          \<and> generate_steering_docs_deep str_upper empty_analysis ''vscode'' =
              Inr [(''STEERING.md'',
                    tech @ rule_separator @ struct @ rule_separator @ product
                    @ rule_separator @ business)])"
proof -
  have u: "''vscode'' \<notin> set output_formats"
    by (simp add: output_formats_def)
  have c: "conforming empty_analysis"
    by (simp add: conforming_def empty_analysis_def get_or_def deps_named_def enums_complete_def)
  note inst = unknown_target_falls_back [OF u, of str_upper empty_analysis]
  from inst have same: "generate_steering_docs_deep str_upper empty_analysis ''vscode''
       = generate_steering_docs_deep str_upper empty_analysis ''markdown''"
    by (rule conjunct1)
  from inst c have packed: "\<exists>tech struct product business.
            generate_tech_md str_upper empty_analysis = Inr tech
          \<and> generate_structure_md empty_analysis = Inr struct
          \<and> generate_product_md empty_analysis = Inr product
          \<and> generate_business_rules_md empty_analysis = Inr business
          \<and> generate_steering_docs_deep str_upper empty_analysis ''vscode'' =
              Inr [(''STEERING.md'',
                    tech @ rule_separator @ struct @ rule_separator @ product
                    @ rule_separator @ business)]"
    by (elim conjE impE)
  show ?thesis by (rule conjI [OF u conjI [OF c conjI [OF same packed]]])
qed

section \<open>The derivers never raise\<close>

text \<open>
  C5. For every conforming record (every dependency descriptor has a name, every status
  enumeration has a name and values; any field may be absent) each of the four derivers
  returns a string and raises no error. On the record with every field absent they
  return the four documents with every data-dependent section left out.
\<close>

theorem derivers_never_raise:
  assumes "conforming r"
  shows "(\<exists>tech. generate_tech_md upper r = Inr tech)
    \<and> (\<exists>struct. generate_structure_md r = Inr struct)
    \<and> (\<exists>product. generate_product_md r = Inr product)
    \<and> (\<exists>business. generate_business_rules_md r = Inr business)
    \<and> generate_tech_md upper empty_analysis =
        Inr ''# Technology Stack\<newline>\<newline>This document defines the technology choices for this project. \<newline>Use these technologies when generating code and suggestions.\<newline>\<newline>## Framework & Runtime\<newline>\<newline>- **Framework**: unknown\<newline>\<newline>## Technical Constraints\<newline>\<newline>When generating code, follow these constraints:\<newline>\<newline>- Follow TypeScript strict mode\<newline>''
    \<and> generate_structure_md empty_analysis =
        Inr ''# Project Structure\<newline>\<newline>```\<newline># Project structure\<newline>```\<newline>''
    \<and> generate_product_md empty_analysis = Inr ''# Product Overview\<newline>''
    \<and> generate_business_rules_md empty_analysis = Inr ''# Business Rules\<newline>''"
proof -
  from derivers_total [OF assms] have total: "(\<exists>tech. generate_tech_md upper r = Inr tech)
    \<and> (\<exists>struct. generate_structure_md r = Inr struct)
    \<and> (\<exists>product. generate_product_md r = Inr product)
    \<and> (\<exists>business. generate_business_rules_md r = Inr business)"
    by blast
  have tech: "generate_tech_md upper empty_analysis =
        Inr ''# Technology Stack\<newline>\<newline>This document defines the technology choices for this project. \<newline>Use these technologies when generating code and suggestions.\<newline>\<newline>## Framework & Runtime\<newline>\<newline>- **Framework**: unknown\<newline>\<newline>## Technical Constraints\<newline>\<newline>When generating code, follow these constraints:\<newline>\<newline>- Follow TypeScript strict mode\<newline>''"
    by code_simp
  have struct: "generate_structure_md empty_analysis =
        Inr ''# Project Structure\<newline>\<newline>```\<newline># Project structure\<newline>```\<newline>''"
    by code_simp
  have product: "generate_product_md empty_analysis = Inr ''# Product Overview\<newline>''"
    by code_simp
  have business: "generate_business_rules_md empty_analysis = Inr ''# Business Rules\<newline>''"
    by code_simp
  from total tech struct product business show ?thesis
    by (elim conjE) (intro conjI)
qed

theorem derivers_never_raise_witness:
  "conforming (ui_analysis six_radix)
   \<and> (\<exists>tech. generate_tech_md str_upper (ui_analysis six_radix) = Inr tech)
   \<and> (\<exists>struct. generate_structure_md (ui_analysis six_radix) = Inr struct)
   \<and> (\<exists>product. generate_product_md (ui_analysis six_radix) = Inr product)
   \<and> (\<exists>business. generate_business_rules_md (ui_analysis six_radix) = Inr business)"
proof -
  have c: "conforming (ui_analysis six_radix)"
    by (simp add: conforming_def ui_analysis_def empty_analysis_def get_or_def deps_named_def
        dep_named_def six_radix_def named_dep_def enums_complete_def)
  from derivers_never_raise [OF c, of str_upper] have "(\<exists>tech. generate_tech_md str_upper (ui_analysis six_radix) = Inr tech)
   \<and> (\<exists>struct. generate_structure_md (ui_analysis six_radix) = Inr struct)
   \<and> (\<exists>product. generate_product_md (ui_analysis six_radix) = Inr product)
   \<and> (\<exists>business. generate_business_rules_md (ui_analysis six_radix) = Inr business)"
    by (elim conjE) (intro conjI)
  with c show ?thesis by (rule conjI)
qed

section \<open>The technology document and the categorized dependencies\<close>




section \<open>Status enumerations in the business rules document\<close>

text \<open>
  C7. For every record with a non-empty \<open>statusEnums\<close> sequence (each enumeration with
  its name and its values, as the data model has it), the business rules document is,
  joined by newlines: the title, the \<open>Status Values\<close> heading, then for each enumeration
  in input order exactly one subsection (the name as a heading, one bullet per value in
  the values' order, a blank line), then the entities block.
\<close>

theorem status_enum_subsections:
  assumes "statusEnums r = Some es" and "es \<noteq> []" and "enums_complete es"
  shows "generate_business_rules_md r =
     Inr (join ''\<newline>''
       ([''# Business Rules\<newline>'', ''## Status Values\<newline>'']
        @ concat (map (\<lambda>e. [''### '' @ get_or (enum_name e) []]
                           @ map (\<lambda>v. ''- `'' @ v @ ''`'') (get_or (enum_values e) [])
                           @ [[]]) es)
        @ data_entities_lines (get_or (entities r) [])))"
proof -
  have "generate_business_rules_md_lines r =
     Inr ([''# Business Rules\<newline>'', ''## Status Values\<newline>'']
          @ concat (map (\<lambda>e. [''### '' @ get_or (enum_name e) []]
                           @ map (\<lambda>v. ''- `'' @ v @ ''`'') (get_or (enum_values e) [])
                           @ [[]]) es)
          @ data_entities_lines (get_or (entities r) []))"
    using assms
    by (simp add: generate_business_rules_md_lines_def Let_def status_lines_def
        status_enum_lines_complete get_or_def)
  then show ?thesis by (rule business_rules_md_of_lines)
qed

theorem status_enum_subsections_witness:
  "statusEnums status_analysis =
     Some [\<lparr>enum_name = Some ''OrderStatus'', enum_values = Some [''pending'', ''shipped'']\<rparr>,
           \<lparr>enum_name = Some ''Role'', enum_values = Some [''admin'']\<rparr>]
   \<and> enums_complete
        [\<lparr>enum_name = Some ''OrderStatus'', enum_values = Some [''pending'', ''shipped'']\<rparr>,
         \<lparr>enum_name = Some ''Role'', enum_values = Some [''admin'']\<rparr>]
   \<and> generate_business_rules_md status_analysis =
       Inr ''# Business Rules\<newline>\<newline>## Status Values\<newline>\<newline>### OrderStatus\<newline>- `pending`\<newline>- `shipped`\<newline>\<newline>### Role\<newline>- `admin`\<newline>''"
proof -
  let ?es = "[\<lparr>enum_name = Some ''OrderStatus'', enum_values = Some [''pending'', ''shipped'']\<rparr>,
           \<lparr>enum_name = Some ''Role'', enum_values = Some [''admin'']\<rparr>]"
  have h1: "statusEnums status_analysis = Some ?es"
    by (simp add: status_analysis_def empty_analysis_def)
  have h2: "?es \<noteq> []"
    by simp
  have h3: "enums_complete ?es"
    by (simp add: enums_complete_def)
  have ents: "data_entities_lines (get_or (entities status_analysis) []) = []"
    by (simp add: status_analysis_def empty_analysis_def get_or_def data_entities_lines_def)
  from status_enum_subsections [OF h1 h2 h3]
  have doc: "generate_business_rules_md status_analysis =
       Inr ''# Business Rules\<newline>\<newline>## Status Values\<newline>\<newline>### OrderStatus\<newline>- `pending`\<newline>- `shipped`\<newline>\<newline>### Role\<newline>- `admin`\<newline>''"
    unfolding ents by (simp add: get_or_def)
  show ?thesis by (rule conjI [OF h1 conjI [OF h3 doc]])
qed

section \<open>Entity tables in the business rules document\<close>

text \<open>
  An entity of the first five that has no field list gets no subsection: the block is
  the \<open>Data Entities\<close> heading alone.
\<close>

theorem entity_without_fields_counterexample:
  "entities fieldless_analysis =
     Some [\<lparr>entity_name = Some ''User'', entity_description = None, entity_fields = None\<rparr>]
   \<and> generate_business_rules_md_lines fieldless_analysis =
       Inr [''# Business Rules\<newline>'', ''## Data Entities\<newline>'']
   \<and> generate_business_rules_md fieldless_analysis =
       Inr ''# Business Rules\<newline>\<newline>## Data Entities\<newline>''"
  by code_simp

text \<open>
  C8, as amended. For every record with a non-empty \<open>entities\<close> sequence, the business
  rules document is, joined by newlines: the title, the status block, the
  \<open>Data Entities\<close> heading and one subsection for each entity, among the first 5, that has a
  non-empty name and at least one field, in input order. A subsection is a table of at
  most the first 10 fields; a row shows the field name, the type cut to its first line
  and its first 30 characters, and \<open>No\<close> when the field is marked optional, \<open>Yes\<close>
  otherwise.
\<close>

theorem entity_tables:
  assumes "enums_complete (get_or (statusEnums r) [])"
    and "entities r = Some ents" and "ents \<noteq> []"
  shows "\<exists>status.
      status_lines (get_or (statusEnums r) []) = Inr status
    \<and> generate_business_rules_md r =
        Inr (join ''\<newline>''
          ([''# Business Rules\<newline>''] @ status @ [''## Data Entities\<newline>'']
           @ concat (map entity_subsection (filter renderable (take 5 ents)))))"
proof -
  from status_lines_complete [OF assms(1)] obtain status where
    status: "status_lines (get_or (statusEnums r) []) = Inr status" ..
  have "generate_business_rules_md_lines r =
        Inr ([''# Business Rules\<newline>''] @ status @ [''## Data Entities\<newline>'']
             @ concat (map entity_subsection (filter renderable (take 5 ents))))"
    using assms(2,3) status
    by (simp add: generate_business_rules_md_lines_def Let_def data_entities_lines_def
        entity_tables_filter get_or_def)
  from business_rules_md_of_lines [OF this] status show ?thesis by blast
qed

theorem entity_tables_witness:
  "enums_complete (get_or (statusEnums entities_analysis) [])
   \<and> (\<exists>ents. entities entities_analysis = Some ents \<and> ents \<noteq> []
        \<and> map renderable ents = [False, True])
   \<and> generate_business_rules_md entities_analysis =
       Inr (''# Business Rules\<newline>\<newline>## Data Entities\<newline>\<newline>### User\<newline>\<newline>| Field | Type | Required |\<newline>|-------|------|----------|\<newline>| id | `string` | Yes |\<newline>| address | `{ street: string; city: string` | No |\<newline>| note | `''
            @ concat (replicate 30 e_acute) @ ''` | Yes |\<newline>'')"
proof -
  let ?ents = "[\<lparr>entity_name = Some ''Session'', entity_description = None, entity_fields = None\<rparr>,
        \<lparr>entity_name = Some ''User'', entity_description = None,
         entity_fields = Some
           [\<lparr>field_name = Some ''id'', field_type = Some ''string'', field_optional = None\<rparr>,
            \<lparr>field_name = Some ''address'', field_type = Some long_type,
             field_optional = Some True\<rparr>,
            \<lparr>field_name = Some ''note'', field_type = Some (concat (replicate 31 e_acute)),
             field_optional = Some False\<rparr>]\<rparr>]"
  have h1: "enums_complete (get_or (statusEnums entities_analysis) [])"
    by (simp add: entities_analysis_def empty_analysis_def get_or_def enums_complete_def)
  have h2: "entities entities_analysis = Some ?ents"
    by (simp add: entities_analysis_def empty_analysis_def)
  have h3: "?ents \<noteq> []"
    by simp
  have r: "map renderable ?ents = [False, True]"
    by (simp add: renderable_def get_or_def)
  have status: "status_lines (get_or (statusEnums entities_analysis) []) = Inr []"
    by (simp add: entities_analysis_def empty_analysis_def get_or_def status_lines_def)
  have cut: "take_chars 30 (first_line (concat (replicate 31 e_acute)))
      = concat (replicate 30 e_acute)"
    by code_simp
  have tables: "concat (map entity_subsection (filter renderable (take 5 ?ents))) =
      [''### User\<newline>'',
            ''| Field | Type | Required |'', ''|-------|------|----------|'',
            ''| id | `string` | Yes |'',
            ''| address | `{ street: string; city: string` | No |'',
            ''| note | `'' @ concat (replicate 30 e_acute) @ ''` | Yes |'',
            []]"
    by (simp add: renderable_def entity_subsection_def table_row_def get_or_def cut)
      (simp add: first_line_def long_type_def is_continuation_def)
  from entity_tables [OF h1 h2 h3]
  have doc: "generate_business_rules_md entities_analysis =
       Inr (''# Business Rules\<newline>\<newline>## Data Entities\<newline>\<newline>### User\<newline>\<newline>| Field | Type | Required |\<newline>|-------|------|----------|\<newline>| id | `string` | Yes |\<newline>| address | `{ street: string; city: string` | No |\<newline>| note | `''
            @ concat (replicate 30 e_acute) @ ''` | Yes |\<newline>'')"
    unfolding status tables by simp
  have ex: "\<exists>ents. entities entities_analysis = Some ents \<and> ents \<noteq> []
        \<and> map renderable ents = [False, True]"
    using h2 h3 r by (intro exI [of _ ?ents] conjI)
  show ?thesis by (rule conjI [OF h1 conjI [OF ex doc]])
qed

section \<open>The README title in the product document\<close>

text \<open>
  A title that is present and empty is not written, although it has no \<open>deploy\<close> in it:
  the guard asks for a truthy title first. The document goes from the heading to the
  description.
\<close>

theorem empty_title_counterexample:
  "readme empty_title_analysis =
     Some \<lparr>readme_title = Some [], readme_description = Some ''A shop.'',
           readme_features = None\<rparr>
   \<and> \<not> str_in ''deploy'' (str_lower [])
   \<and> generate_product_md_lines empty_title_analysis =
       [''# Product Overview\<newline>'', ''A shop.'', []]
   \<and> generate_product_md empty_title_analysis =
       Inr ''# Product Overview\<newline>\<newline>A shop.\<newline>''"
  by code_simp

text \<open>
  C9, as amended. For every record with a non-empty readme title, the product document
  is, joined by newlines: the heading, the title line if and only if the lower-cased
  title does not contain \<open>deploy\<close>, then the description, the feature list and the
  entities section. These three are rendered as they are for the same record without a
  title, so a title with \<open>deploy\<close> gives exactly the document of the untitled record.
\<close>

theorem readme_title_deploy:
  assumes "readme r = Some rm" and "readme_title rm = Some t" and "t \<noteq> []"
  shows "generate_product_md r =
       Inr (join ''\<newline>''
         ([''# Product Overview\<newline>'']
          @ (if str_in ''deploy'' (str_lower t) then [] else [t @ ''\<newline>''])
          @ description_lines rm @ features_lines rm
          @ core_entities_lines (get_or (entities r) [])))
    \<and> generate_product_md (r\<lparr>readme := Some (rm\<lparr>readme_title := None\<rparr>)\<rparr>) =
       Inr (join ''\<newline>''
         ([''# Product Overview\<newline>'']
          @ description_lines rm @ features_lines rm
          @ core_entities_lines (get_or (entities r) [])))"
proof -
  have titled: "generate_product_md_lines r =
       [''# Product Overview\<newline>'']
       @ (if str_in ''deploy'' (str_lower t) then [] else [t @ ''\<newline>''])
       @ description_lines rm @ features_lines rm
       @ core_entities_lines (get_or (entities r) [])"
    using assms by (simp add: generate_product_md_lines_def Let_def title_lines_def get_or_def)
  have untitled: "generate_product_md_lines (r\<lparr>readme := Some (rm\<lparr>readme_title := None\<rparr>)\<rparr>) =
       [''# Product Overview\<newline>'']
       @ description_lines rm @ features_lines rm
       @ core_entities_lines (get_or (entities r) [])"
    by (simp add: generate_product_md_lines_def Let_def untitled_blocks get_or_def)
  show ?thesis
    unfolding product_md_of_lines titled untitled by simp
qed

theorem readme_title_deploy_witness:
  "generate_product_md (titled_analysis ''Deploy to Vercel'') =
     Inr ''# Product Overview\<newline>\<newline>A shop.\<newline>\<newline>## Features\<newline>\<newline>- Cart\<newline>''
   \<and> str_in ''deploy'' (str_lower ''Deploy to Vercel'')
   \<and> generate_product_md (titled_analysis ''Acme Shop'') =
     Inr ''# Product Overview\<newline>\<newline>Acme Shop\<newline>\<newline>A shop.\<newline>\<newline>## Features\<newline>\<newline>- Cart\<newline>''
   \<and> \<not> str_in ''deploy'' (str_lower ''Acme Shop'')"
proof -
  let ?rm = "\<lambda>t. \<lparr>readme_title = Some t, readme_description = Some ''A shop.'',
        readme_features = Some [''Cart'']\<rparr>"
  have h1: "readme (titled_analysis t) = Some (?rm t)" for t
    by (simp add: titled_analysis_def empty_analysis_def)
  have h2: "readme_title (?rm t) = Some t" for t
    by simp
  have d: "str_in ''deploy'' (str_lower ''Deploy to Vercel'')"
    by (simp add: str_lower_def lower_char_def)
  have a: "\<not> str_in ''deploy'' (str_lower ''Acme Shop'')"
    by (simp add: str_lower_def lower_char_def)
  have rest: "description_lines (?rm t) = [''A shop.'', []]"
    "features_lines (?rm t) = [''## Features\<newline>'', ''- Cart'', []]"
    "core_entities_lines (get_or (entities (titled_analysis t)) []) = []" for t
    by (simp_all add: description_lines_def features_lines_def core_entities_lines_def
        titled_analysis_def empty_analysis_def get_or_def)
  have n1: "''Deploy to Vercel'' \<noteq> []" and n2: "''Acme Shop'' \<noteq> []"
    by simp_all
  from conjunct1 [OF readme_title_deploy [OF h1 h2 n1]]
  have deploy: "generate_product_md (titled_analysis ''Deploy to Vercel'') =
     Inr ''# Product Overview\<newline>\<newline>A shop.\<newline>\<newline>## Features\<newline>\<newline>- Cart\<newline>''"
    unfolding rest using d by simp
  from conjunct1 [OF readme_title_deploy [OF h1 h2 n2]]
  have acme: "generate_product_md (titled_analysis ''Acme Shop'') =
     Inr ''# Product Overview\<newline>\<newline>Acme Shop\<newline>\<newline>A shop.\<newline>\<newline>## Features\<newline>\<newline>- Cart\<newline>''"
    unfolding rest using a by simp
  show ?thesis by (rule conjI [OF deploy conjI [OF d conjI [OF acme a]]])
qed

section \<open>The Geist font line\<close>




end
